theory Spec2Isabelle
  imports Main
begin

section \<open>Python values\<close>

text \<open>
  The client of \<^verbatim>\<open>dominos.py\<close> handles nothing but values decoded from JSON and
  attribute bags built from them. A JSON object is an association list in insertion
  order; its keys are strings, and where a key occurs twice its first binding is the
  one that counts. JSON numbers are the integers: numbers with a fraction or an
  exponent (Python floats) are outside this model.
\<close>

datatype json =
    JNull
  | JBool bool
  | JInt int
  | JStr string
  | JList "json list"
  | JObj "(string \<times> json) list"

type_synonym dict = "(string \<times> json) list"

text \<open>
  The exceptions the code can raise. \<open>TransportError\<close> stands for every exception of
  the \<^verbatim>\<open>requests\<close> library raised by a call that got no response.
\<close>

datatype exn =
    AttributeError
  | KeyError
  | IndexError
  | TypeError
  | ValueError
  | UnboundLocalError
  | TransportError

text \<open>\<^verbatim>\<open>d[k]\<close> and \<^verbatim>\<open>d[k] = v\<close> on a dictionary with a string key.\<close>

definition dict_get :: "dict \<Rightarrow> string \<Rightarrow> json option" where
  "dict_get d k = map_of d k"

fun dict_set :: "dict \<Rightarrow> string \<Rightarrow> json \<Rightarrow> dict" where
  "dict_set [] k v = [(k, v)]"
| "dict_set ((k', v') # d) k v =
     (if k' = k then (k, v) # d else (k', v') # dict_set d k v)"

text \<open>Python's truth value of a decoded JSON value, as tested by \<^verbatim>\<open>not x\<close>.\<close>

fun truthy :: "json \<Rightarrow> bool" where
  "truthy JNull = False"
| "truthy (JBool b) = b"
| "truthy (JInt n) = (n \<noteq> 0)"
| "truthy (JStr s) = (s \<noteq> [])"
| "truthy (JList xs) = (xs \<noteq> [])"
| "truthy (JObj d) = (d \<noteq> [])"

text \<open>
  \<^verbatim>\<open>x['name']\<close>: only a dictionary can be subscripted by a string; a missing key is a
  KeyError, every other kind of value a TypeError.
\<close>

fun subscript_str :: "json \<Rightarrow> string \<Rightarrow> exn + json" where
  "subscript_str (JObj d) k =
     (case dict_get d k of None \<Rightarrow> Inl KeyError | Some v \<Rightarrow> Inr v)"
| "subscript_str _ k = Inl TypeError"

text \<open>
  Indexing a sequence of length \<open>n\<close> by an integer \<open>i\<close>: IndexError unless
  \<open>-n \<le> i < n\<close>, and below zero the position is \<open>n + i\<close>.
\<close>

definition list_index :: "'a list \<Rightarrow> int \<Rightarrow> exn + 'a" where
  "list_index xs i =
     (if i < - int (length xs) \<or> int (length xs) \<le> i then Inl IndexError
      else if i < 0 then Inr (xs ! nat (int (length xs) + i))
      else Inr (xs ! nat i))"

text \<open>
  \<^verbatim>\<open>x[i]\<close> with an integer: a list or a string is indexed, a dictionary decoded from
  JSON has no integer key, anything else is not subscriptable.
\<close>

fun subscript_int :: "json \<Rightarrow> int \<Rightarrow> exn + json" where
  "subscript_int (JList xs) i = list_index xs i"
| "subscript_int (JStr s) i =
     (case list_index s i of Inl e \<Rightarrow> Inl e | Inr c \<Rightarrow> Inr (JStr [c]))"
| "subscript_int (JObj d) i = Inl KeyError"
| "subscript_int _ i = Inl TypeError"

text \<open>
  \<^verbatim>\<open>for x in v\<close>: a list yields its elements, a dictionary its keys, a string its
  characters; nothing else is iterable.
\<close>

fun py_iter :: "json \<Rightarrow> exn + json list" where
  "py_iter (JList xs) = Inr xs"
| "py_iter (JObj d) = Inr (map JStr (remdups (map fst d)))"
| "py_iter (JStr s) = Inr (map (\<lambda>c. JStr [c]) s)"
| "py_iter _ = Inl TypeError"

text \<open>
  \<^verbatim>\<open>x['name'] = v\<close>: only a dictionary takes the assignment.
\<close>

fun setitem_str :: "json \<Rightarrow> string \<Rightarrow> json \<Rightarrow> exn + dict" where
  "setitem_str (JObj d) k v = Inr (dict_set d k v)"
| "setitem_str _ k v = Inl TypeError"

section \<open>Item, Basket, Menu\<close>

text \<open>
  \<^verbatim>\<open>Item\<close> and \<^verbatim>\<open>Basket\<close> are attribute bags: \<^verbatim>\<open>__init__(self, **entries)\<close> copies the
  keyword arguments into \<^verbatim>\<open>__dict__\<close>. The argument of \<^verbatim>\<open>**\<close> must be a dictionary,
  and a key \<^verbatim>\<open>self\<close> collides with the positional parameter: both are a TypeError.
\<close>

type_synonym Item = dict
type_synonym Basket = dict

fun bag_init :: "json \<Rightarrow> exn + dict" where
  "bag_init (JObj d) = (if ''self'' \<in> fst ` set d then Inl TypeError else Inr d)"
| "bag_init _ = Inl TypeError"

definition Item_init :: "json \<Rightarrow> exn + Item" where
  "Item_init entries = bag_init entries"

definition Basket_init :: "json \<Rightarrow> exn + Basket" where
  "Basket_init entries = bag_init entries"

text \<open>\<^verbatim>\<open>obj.name\<close> on an attribute bag.\<close>

definition getattr :: "dict \<Rightarrow> string \<Rightarrow> exn + json" where
  "getattr obj name =
     (case dict_get obj name of None \<Rightarrow> Inl AttributeError | Some v \<Rightarrow> Inr v)"

text \<open>
  A dictionary key is hashed: lists and dictionaries are unhashable (TypeError), and
  \<^verbatim>\<open>True\<close> and \<^verbatim>\<open>False\<close> are the keys \<open>1\<close> and \<open>0\<close>.
\<close>

datatype key = KNone | KInt int | KStr string

fun hash_key :: "json \<Rightarrow> exn + key" where
  "hash_key JNull = Inr KNone"
| "hash_key (JBool b) = Inr (KInt (if b then 1 else 0))"
| "hash_key (JInt n) = Inr (KInt n)"
| "hash_key (JStr s) = Inr (KStr s)"
| "hash_key _ = Inl TypeError"

text \<open>
  Item objects are shared: the menu and the caller hold the same object, and
  \<^verbatim>\<open>add_item\<close> works on the object it is given. So Items live in a store, addressed by
  position, and the menu holds addresses. A Menu maps a category to the addresses of
  its items in insertion order.
\<close>

type_synonym addr = nat
type_synonym Menu = "key \<rightharpoonup> addr list"

definition Menu_init :: Menu where
  "Menu_init = Map.empty"

definition Menu_addItem :: "Menu \<Rightarrow> json \<Rightarrow> addr \<Rightarrow> exn + Menu" where
  "Menu_addItem items category item =
     (case hash_key category of
        Inl e \<Rightarrow> Inl e
      | Inr c \<Rightarrow>
          (let items1 = (case items c of None \<Rightarrow> items(c \<mapsto> []) | Some _ \<Rightarrow> items)
           in Inr (items1(c \<mapsto> the (items1 c) @ [item]))))"

definition Menu_itemsInCategory :: "Menu \<Rightarrow> json \<Rightarrow> addr list" where
  "Menu_itemsInCategory items category =
     (case hash_key category of
        Inl e \<Rightarrow> []
      | Inr c \<Rightarrow> (case items c of None \<Rightarrow> [] | Some xs \<Rightarrow> xs))"

section \<open>The HTTP session\<close>

text \<open>
  A request as the code hands it to \<^verbatim>\<open>requests\<close>. The text formatting of Python is
  not modelled: a URL built with \<^verbatim>\<open>%\<close> keeps its template and its arguments apart, and
  the body produced by \<^verbatim>\<open>json.dumps\<close> is kept as the value it encodes.
\<close>

datatype meth = GET | POST

record request =
  rq_meth :: meth
  rq_url :: string
  rq_url_args :: "json list"
  rq_params :: "(string \<times> json) list"
  rq_headers :: "(string \<times> string) list"
  rq_data :: "json option"
  rq_cookies :: "(string \<times> string) list"

text \<open>
  A response: its status, the result of \<^verbatim>\<open>r.json()\<close> (\<open>None\<close> when the body does not
  parse, which raises ValueError), and the cookies it sets.
\<close>

record response =
  status_code :: int
  body :: "json option"
  set_cookies :: "(string \<times> string) list"

datatype outcome = TransportFailure | Reply response

type_synonym remote = "request \<Rightarrow> outcome"

record session =
  cookies :: "(string \<times> string) list"

definition requests_session :: session where
  "requests_session = \<lparr>cookies = []\<rparr>"

definition r_json :: "response \<Rightarrow> exn + json" where
  "r_json r = (case body r of None \<Rightarrow> Inl ValueError | Some v \<Rightarrow> Inr v)"

section \<open>The client\<close>

text \<open>
  The fields of \<^verbatim>\<open>Dominos\<close>, and what its methods act on besides: the store of Item
  objects, the requests issued so far, and the lines printed. \<open>basket\<close> is \<open>None\<close>
  while the attribute does not exist (\<^verbatim>\<open>__init__\<close> does not create it).
\<close>

record Dominos =
  sess :: session
  stores :: "json list"
  menu_version :: json
  menu :: Menu
  basket :: "Basket option"
  heap :: "Item list"
  wire :: "request list"
  stdout :: "(string \<times> json list) list"

definition base_url :: string where
  "base_url = ''https://www.dominos.co.uk/''"

definition mk_request :: "meth \<Rightarrow> string \<Rightarrow> request" where
  "mk_request m u =
     \<lparr>rq_meth = m, rq_url = u, rq_url_args = [], rq_params = [], rq_headers = [],
      rq_data = None, rq_cookies = []\<rparr>"

text \<open>
  \<^verbatim>\<open>self.sess.get\<close> and \<^verbatim>\<open>self.sess.post\<close>: the request goes out with the cookies of
  the jar, and either no response comes back, which raises, or the response's cookies
  are stored in the jar.
\<close>

definition sess_send :: "remote \<Rightarrow> request \<Rightarrow> Dominos \<Rightarrow> (exn + response) \<times> Dominos" where
  "sess_send net rq st =
     (let rq1 = rq\<lparr>rq_cookies := cookies (sess st)\<rparr>;
          st1 = st\<lparr>wire := wire st @ [rq1]\<rparr>
      in case net rq1 of
           TransportFailure \<Rightarrow> (Inl TransportError, st1)
         | Reply r \<Rightarrow>
             (Inr r, st1\<lparr>sess := \<lparr>cookies = set_cookies r @ cookies (sess st)\<rparr>\<rparr>))"

definition reset_session :: "remote \<Rightarrow> Dominos \<Rightarrow> (exn + unit) \<times> Dominos" where
  "reset_session net st =
     (let url = base_url @ ''/Home/SessionExpire''
      in case sess_send net (mk_request GET url) st of
           (Inl e, st1) \<Rightarrow> (Inl e, st1)
         | (Inr r, st1) \<Rightarrow> (Inr (), st1\<lparr>sess := requests_session\<rparr>))"

definition search_stores :: "remote \<Rightarrow> string \<Rightarrow> Dominos \<Rightarrow> (exn + json list) \<times> Dominos" where
  "search_stores net term st =
     (let st0 = st\<lparr>stores := []\<rparr>;
          url = base_url @ ''storelocatormap/storenamesearch'';
          payload = [(''search'', JStr term)]
      in case sess_send net ((mk_request GET url)\<lparr>rq_params := payload\<rparr>) st0 of
           (Inl e, st1) \<Rightarrow> (Inl e, st1)
         | (Inr r, st1) \<Rightarrow>
             (case r_json r of
                Inl e \<Rightarrow> (Inl e, st1)
              | Inr results \<Rightarrow>
                  (case py_iter results of
                     Inl e \<Rightarrow> (Inl e, st1)
                   | Inr rs \<Rightarrow>
                       (let st2 = st1\<lparr>stores := stores st1 @ rs\<rparr>
                        in (Inr (stores st2), st2)))))"

definition select_store :: "int \<Rightarrow> Dominos \<Rightarrow> (exn + json) \<times> Dominos" where
  "select_store idx st = (list_index (stores st) idx, st)"

text \<open>
  \<^verbatim>\<open>get_epoch\<close> reads the clock; the time it returns is the parameter \<open>now\<close> of
  \<^verbatim>\<open>get_store_context\<close>.
\<close>

definition get_cookie :: "remote \<Rightarrow> json \<Rightarrow> string \<Rightarrow> Dominos \<Rightarrow> (exn + unit) \<times> Dominos" where
  "get_cookie net store postcode st =
     (let url = base_url @ ''Journey/Initialize''
      in case subscript_str store ''Id'' of
           Inl e \<Rightarrow> (Inl e, st)
         | Inr store_id \<Rightarrow>
             (let payload = [(''fulfilmentmethod'', JStr ''1''),
                             (''storeId'', store_id),
                             (''postcode'', JStr postcode)]
              in case sess_send net ((mk_request GET url)\<lparr>rq_params := payload\<rparr>) st of
                   (Inl e, st1) \<Rightarrow> (Inl e, st1)
                 | (Inr r, st1) \<Rightarrow> (Inr (), st1)))"

definition json_headers :: "(string \<times> string) list" where
  "json_headers = [(''content-type'', ''application/json; charset=utf-8'')]"

definition get_store_context :: "remote \<Rightarrow> int \<Rightarrow> Dominos \<Rightarrow> (exn + bool) \<times> Dominos" where
  "get_store_context net now st =
     (let url = base_url @ ''ProductCatalog/GetStoreContext'';
          payload = [(''_'', JInt now)];
          headers = json_headers
      in case sess_send net
                ((mk_request GET url)\<lparr>rq_params := payload, rq_headers := headers\<rparr>) st of
           (Inl e, st1) \<Rightarrow> (Inl e, st1)
         | (Inr r, st1) \<Rightarrow>
             (case r_json r of
                Inl e \<Rightarrow> (Inr False, st1)
              | Inr context \<Rightarrow>
                  (case subscript_str context ''sessionContext'' of
                     Inl e \<Rightarrow> (Inl e, st1)
                   | Inr sc \<Rightarrow>
                       (case subscript_str sc ''menuVersion'' of
                          Inl e \<Rightarrow> (Inl e, st1)
                        | Inr v \<Rightarrow> (Inr True, st1\<lparr>menu_version := v\<rparr>)))))"

text \<open>
  \<^verbatim>\<open>Basket(**r.json())\<close> inside \<^verbatim>\<open>try\<close> with a bare \<^verbatim>\<open>except\<close>: the ValueError of
  a body that does not parse and the TypeError of the constructor are both caught.
\<close>

definition try_Basket :: "response \<Rightarrow> exn + Basket" where
  "try_Basket r =
     (case r_json r of Inl e \<Rightarrow> Inl e | Inr v \<Rightarrow> Basket_init v)"

definition get_basket :: "remote \<Rightarrow> Dominos \<Rightarrow> (exn + bool) \<times> Dominos" where
  "get_basket net st =
     (let url = base_url @ ''/Basket/GetBasket?''
      in case sess_send net (mk_request GET url) st of
           (Inl e, st1) \<Rightarrow> (Inl e, st1)
         | (Inr r, st1) \<Rightarrow>
             (case try_Basket r of
                Inl e \<Rightarrow> (Inr False, st1)
              | Inr b \<Rightarrow> (Inr True, st1\<lparr>basket := Some b\<rparr>)))"

subsection \<open>get_menu\<close>

text \<open>
  The three nested loops of \<^verbatim>\<open>get_menu\<close>, innermost first. Each returns the exception
  that ended it, if any, with the running index and the state reached: an exception
  leaves the menu as filled so far. \<^verbatim>\<open>Item(**p)\<close> creates a new object, at the next
  free address.
\<close>

fun products_loop :: "json \<Rightarrow> json list \<Rightarrow> int \<Rightarrow> Dominos \<Rightarrow> exn option \<times> int \<times> Dominos" where
  "products_loop i [] idx st = (None, idx, st)"
| "products_loop i (p # ps) idx st =
     (case setitem_str p ''idx'' (JInt idx) of
        Inl e \<Rightarrow> (Some e, idx, st)
      | Inr p1 \<Rightarrow>
          (case subscript_str i ''Type'' of
             Inl e \<Rightarrow> (Some e, idx, st)
           | Inr category \<Rightarrow>
               (case Item_init (JObj p1) of
                  Inl e \<Rightarrow> (Some e, idx, st)
                | Inr obj \<Rightarrow>
                    (let a = length (heap st);
                         st1 = st\<lparr>heap := heap st @ [obj]\<rparr>
                     in case Menu_addItem (menu st1) category a of
                          Inl e \<Rightarrow> (Some e, idx, st1)
                        | Inr m \<Rightarrow> products_loop i ps (idx + 1) (st1\<lparr>menu := m\<rparr>)))))"

fun subcategories_loop :: "json list \<Rightarrow> int \<Rightarrow> Dominos \<Rightarrow> exn option \<times> int \<times> Dominos" where
  "subcategories_loop [] idx st = (None, idx, st)"
| "subcategories_loop (i # is) idx st =
     (case subscript_str i ''Products'' of
        Inl e \<Rightarrow> (Some e, idx, st)
      | Inr products \<Rightarrow>
          (case py_iter products of
             Inl e \<Rightarrow> (Some e, idx, st)
           | Inr ps \<Rightarrow>
               (case products_loop i ps idx st of
                  (Some e, idx1, st1) \<Rightarrow> (Some e, idx1, st1)
                | (None, idx1, st1) \<Rightarrow> subcategories_loop is idx1 st1)))"

fun groups_loop :: "json list \<Rightarrow> int \<Rightarrow> Dominos \<Rightarrow> exn option \<times> int \<times> Dominos" where
  "groups_loop [] idx st = (None, idx, st)"
| "groups_loop (item # items) idx st =
     (case subscript_str item ''Subcategories'' of
        Inl e \<Rightarrow> (Some e, idx, st)
      | Inr subcategories \<Rightarrow>
          (case py_iter subcategories of
             Inl e \<Rightarrow> (Some e, idx, st)
           | Inr subs \<Rightarrow>
               (case subcategories_loop subs idx st of
                  (Some e, idx1, st1) \<Rightarrow> (Some e, idx1, st1)
                | (None, idx1, st1) \<Rightarrow> groups_loop items idx1 st1)))"

definition catalog_url :: string where
  "catalog_url =
     base_url @ ''/ProductCatalog/GetStoreCatalog?collectionOnly=false&menuVersion=%s&storeId=%s''"

text \<open>The result is \<open>None\<close> for Python's \<^verbatim>\<open>None\<close> and the menu otherwise.\<close>

definition get_menu :: "remote \<Rightarrow> json \<Rightarrow> Dominos \<Rightarrow> (exn + Menu option) \<times> Dominos" where
  "get_menu net store st =
     (let st0 = st\<lparr>menu := Menu_init\<rparr>
      in if \<not> truthy (menu_version st0) then (Inr None, st0)
         else
           (case subscript_str store ''Id'' of
              Inl e \<Rightarrow> (Inl e, st0)
            | Inr store_id \<Rightarrow>
                (let rq = (mk_request GET catalog_url)
                            \<lparr>rq_url_args := [menu_version st0, store_id]\<rparr>
                 in case sess_send net rq st0 of
                      (Inl e, st1) \<Rightarrow> (Inl e, st1)
                    | (Inr r, st1) \<Rightarrow>
                        (case r_json r of
                           Inl e \<Rightarrow> (Inl e, st1)
                         | Inr catalog \<Rightarrow>
                             (case py_iter catalog of
                                Inl e \<Rightarrow> (Inl e, st1)
                              | Inr items \<Rightarrow>
                                  (case groups_loop items 0 st1 of
                                     (Some e, idx, st2) \<Rightarrow> (Inl e, st2)
                                   | (None, idx, st2) \<Rightarrow> (Inr (Some (menu st2)), st2)))))))"

subsection \<open>add_item and remove_item\<close>

text \<open>
  \<^verbatim>\<open>ingredients += [42, 36]\<close> extends a list in place and is a TypeError on every
  other decoded value. The list extended is the one inside the Item, reached by
  \<^verbatim>\<open>item.ProductSkus[size_idx]['Ingredients']\<close>, so the Item in the store changes:
  \<open>update_int\<close> and \<open>update_str\<close> write the new list back along that path.
\<close>

fun iadd :: "json \<Rightarrow> json list \<Rightarrow> exn + json" where
  "iadd (JList xs) ys = Inr (JList (xs @ ys))"
| "iadd _ ys = Inl TypeError"

fun update_int :: "json \<Rightarrow> int \<Rightarrow> json \<Rightarrow> json" where
  "update_int (JList xs) i v =
     JList (xs[nat (if i < 0 then int (length xs) + i else i) := v])"
| "update_int x i v = x"

fun update_str :: "json \<Rightarrow> string \<Rightarrow> json \<Rightarrow> json" where
  "update_str (JObj d) k v = JObj (dict_set d k v)"
| "update_str x k v = x"

text \<open>
  The \<^verbatim>\<open>if\<close>/\<^verbatim>\<open>elif\<close> of \<^verbatim>\<open>add_item\<close>, which computes the URL and the payload. With a
  Type that is neither Pizza nor Side the variable \<^verbatim>\<open>payload\<close> is never bound, and
  reading it for \<^verbatim>\<open>json.dumps\<close> raises before anything is sent.
\<close>

definition add_item_payload :: "addr \<Rightarrow> int \<Rightarrow> Dominos \<Rightarrow> (exn + string \<times> json) \<times> Dominos" where
  "add_item_payload item size_idx st =
     (let url = base_url; obj = heap st ! item
      in case getattr obj ''Type'' of
           Inl e \<Rightarrow> (Inl e, st)
         | Inr ty \<Rightarrow>
             if ty = JStr ''Pizza'' then
               (case getattr obj ''ProductSkus'' of
                  Inl e \<Rightarrow> (Inl e, st)
                | Inr skus \<Rightarrow>
               (case subscript_int skus size_idx of
                  Inl e \<Rightarrow> (Inl e, st)
                | Inr sku \<Rightarrow>
               (case subscript_str sku ''Ingredients'' of
                  Inl e \<Rightarrow> (Inl e, st)
                | Inr ingredients0 \<Rightarrow>
               (case iadd ingredients0 [JInt 42, JInt 36] of
                  Inl e \<Rightarrow> (Inl e, st)
                | Inr ingredients \<Rightarrow>
                    (let obj1 = dict_set obj ''ProductSkus''
                                  (update_int skus size_idx
                                     (update_str sku ''Ingredients'' ingredients));
                         st1 = st\<lparr>heap := (heap st)[item := obj1]\<rparr>
                     in case getattr obj1 ''ProductId'' of
                          Inl e \<Rightarrow> (Inl e, st1)
                        | Inr product_id \<Rightarrow>
                            (Inr (url @ ''/Basket/AddPizza/'',
                                  JObj [(''stepId'', JInt 0),
                                        (''quantity'', JInt 1),
                                        (''sizeId'', JInt size_idx),
                                        (''productId'', product_id),
                                        (''ingredients'', ingredients),
                                        (''productIdHalfTwo'', JInt 0),
                                        (''ingredientsHalfTwo'', JList []),
                                        (''recipeReferrer'', JInt 0)]), st1))))))
             else if ty = JStr ''Side'' then
               (case getattr obj ''ProductSkus'' of
                  Inl e \<Rightarrow> (Inl e, st)
                | Inr skus \<Rightarrow>
               (case subscript_int skus size_idx of
                  Inl e \<Rightarrow> (Inl e, st)
                | Inr sku \<Rightarrow>
               (case subscript_str sku ''ProductSkuId'' of
                  Inl e \<Rightarrow> (Inl e, st)
                | Inr sku_id \<Rightarrow>
                    (Inr (url @ ''/Basket/AddProduct/'',
                          JObj [(''ProductSkuId'', sku_id),
                                (''Quantity'', JInt 1),
                                (''ComplimentaryItems'', JList [])]), st))))
             else (Inl UnboundLocalError, st))"

definition add_item :: "remote \<Rightarrow> addr \<Rightarrow> int \<Rightarrow> Dominos \<Rightarrow> (exn + bool) \<times> Dominos" where
  "add_item net item size_idx st =
     (case add_item_payload item size_idx st of
        (Inl e, st1) \<Rightarrow> (Inl e, st1)
      | (Inr (url, payload), st1) \<Rightarrow>
          (let headers = json_headers
           in case sess_send net
                     ((mk_request POST url)\<lparr>rq_data := Some payload, rq_headers := headers\<rparr>)
                     st1 of
                (Inl e, st2) \<Rightarrow> (Inl e, st2)
              | (Inr r, st2) \<Rightarrow>
                  if status_code r \<noteq> 200 then (Inr False, st2)
                  else
                    (case try_Basket r of
                       Inl e \<Rightarrow> (Inr False, st2)
                     | Inr b \<Rightarrow> (Inr True, st2\<lparr>basket := Some b\<rparr>))))"

definition print :: "string \<Rightarrow> json list \<Rightarrow> Dominos \<Rightarrow> Dominos" where
  "print template args st = st\<lparr>stdout := stdout st @ [(template, args)]\<rparr>"

text \<open>
  The Item that \<^verbatim>\<open>remove_item\<close> builds from the basket line is local to the call and
  is not entered in the store.
\<close>

definition remove_item :: "remote \<Rightarrow> int \<Rightarrow> Dominos \<Rightarrow> (exn + unit) \<times> Dominos" where
  "remove_item net basket_item_idx st =
     (case basket st of
        None \<Rightarrow> (Inl AttributeError, st)
      | Some b \<Rightarrow>
     (case getattr b ''Items'' of
        Inl e \<Rightarrow> (Inl e, st)
      | Inr lines \<Rightarrow>
     (case subscript_int lines basket_item_idx of
        Inl e \<Rightarrow> (Inl e, st)
      | Inr line \<Rightarrow>
     (case Item_init line of
        Inl e \<Rightarrow> (Inl e, st)
      | Inr item \<Rightarrow>
     (let url = base_url @ ''/Basket/RemoveBasketItem''
      in case getattr item ''BasketItemId'' of
           Inl e \<Rightarrow> (Inl e, st)
         | Inr basket_item_id \<Rightarrow>
             (let payload = [(''basketItemId'', basket_item_id),
                             (''wizardItemDelete'', JBool False)]
              in case sess_send net ((mk_request GET url)\<lparr>rq_params := payload\<rparr>) st of
                   (Inl e, st1) \<Rightarrow> (Inl e, st1)
                 | (Inr r, st1) \<Rightarrow>
                     if status_code r \<noteq> 200
                     then (Inr (), print ''[Error] Connection failed to remove item.'' [] st1)
                     else
                       (case try_Basket r of
                          Inl e \<Rightarrow>
                            (Inr (), print ''[Error] Error removing item. Invalid response.'' [] st1)
                        | Inr b1 \<Rightarrow>
                            (let st2 = st1\<lparr>basket := Some b1\<rparr>
                             in case getattr item ''Title'' of
                                  Inl e \<Rightarrow> (Inl e, st2)
                                | Inr title \<Rightarrow>
                                    (Inr (), print ''[OK] Removed %s'' [title] st2)))))))))"

text \<open>\<^verbatim>\<open>__init__\<close>: the initial fields, then \<^verbatim>\<open>reset_session\<close>.\<close>

definition Dominos_fields :: Dominos where
  "Dominos_fields =
     \<lparr>sess = requests_session, stores = [], menu_version = JNull, menu = Menu_init,
      basket = None, heap = [], wire = [], stdout = []\<rparr>"

definition Dominos_init :: "remote \<Rightarrow> (exn + unit) \<times> Dominos" where
  "Dominos_init net = reset_session net Dominos_fields"

section \<open>The catalog in flatten order\<close>

text \<open>
  What the specification says of \<^verbatim>\<open>get_menu\<close>, written down for comparison with the
  loops above: the products of a catalog in flatten order, that is category group,
  then subcategory, then product, each in response order. \<open>children k x\<close> are the
  elements of \<^verbatim>\<open>x[k]\<close>, none when \<^verbatim>\<open>x[k]\<close> does not exist or is not iterable. Every
  product is paired with the subcategory it stands in.
\<close>

definition groups_of :: "json \<Rightarrow> json list" where
  "groups_of catalog = (case py_iter catalog of Inl e \<Rightarrow> [] | Inr xs \<Rightarrow> xs)"

definition children :: "string \<Rightarrow> json \<Rightarrow> json list" where
  "children k x =
     (case subscript_str x k of
        Inl e \<Rightarrow> []
      | Inr v \<Rightarrow> (case py_iter v of Inl e \<Rightarrow> [] | Inr xs \<Rightarrow> xs))"

definition flatten_subcategories :: "json list \<Rightarrow> (json \<times> json) list" where
  "flatten_subcategories subs = concat (map (\<lambda>i. map (Pair i) (children ''Products'' i)) subs)"

definition flatten_groups :: "json list \<Rightarrow> (json \<times> json) list" where
  "flatten_groups items =
     concat (map (\<lambda>item. flatten_subcategories (children ''Subcategories'' item)) items)"

definition flatten_catalog :: "json \<Rightarrow> (json \<times> json) list" where
  "flatten_catalog catalog = flatten_groups (groups_of catalog)"

text \<open>
  The category of a subcategory is the dictionary key its \<^verbatim>\<open>Type\<close> hashes to, if it
  has one.
\<close>

definition key_of :: "json \<Rightarrow> key option" where
  "key_of category = (case hash_key category of Inl e \<Rightarrow> None | Inr c \<Rightarrow> Some c)"

definition category_of :: "json \<Rightarrow> key option" where
  "category_of i = (case subscript_str i ''Type'' of Inl e \<Rightarrow> None | Inr t \<Rightarrow> key_of t)"

text \<open>
  For the proofs: the Item expected for a product that gets index \<open>k\<close>, the Items
  for a run of products numbered from \<open>k\<close>, the addresses from \<open>n\<close> on that fall
  into category \<open>c\<close>, and the list a menu holds under a key.
\<close>

definition indexed_item :: "int \<Rightarrow> json \<Rightarrow> Item" where
  "indexed_item k p = (case setitem_str p ''idx'' (JInt k) of Inl e \<Rightarrow> [] | Inr d \<Rightarrow> d)"

fun index_from :: "int \<Rightarrow> json list \<Rightarrow> Item list" where
  "index_from k [] = []"
| "index_from k (p # ps) = indexed_item k p # index_from (k + 1) ps"

fun addrs_in :: "key \<Rightarrow> addr \<Rightarrow> (json \<times> json) list \<Rightarrow> addr list" where
  "addrs_in c n [] = []"
| "addrs_in c n (ip # fl) =
     (if category_of (fst ip) = Some c then [n] else []) @ addrs_in c (Suc n) fl"

definition listing :: "Menu \<Rightarrow> key \<Rightarrow> addr list" where
  "listing m c = (case m c of None \<Rightarrow> [] | Some xs \<Rightarrow> xs)"

section \<open>Example inputs\<close>

text \<open>
  Concrete stores, an Item, a basket, a catalog, two client states and two remotes:
  \<open>down\<close> answers no request, \<open>serve code b\<close> answers every request with status
  \<open>code\<close> and body \<open>b\<close>.
\<close>

definition two_stores :: "json list" where
  "two_stores = [JObj [(''Id'', JInt 7), (''Name'', JStr ''Westminster'')],
                 JObj [(''Id'', JInt 9), (''Name'', JStr ''Pimlico'')]]"

definition pizza :: Item where
  "pizza =
     [(''Type'', JStr ''Pizza''), (''ProductId'', JInt 12), (''Title'', JStr ''Margherita''),
      (''ProductSkus'',
       JList [JObj [(''ProductSkuId'', JInt 101), (''Ingredients'', JList [JInt 5])],
              JObj [(''ProductSkuId'', JInt 102), (''Ingredients'', JList [JInt 5, JInt 7])]])]"

definition old_basket :: Basket where
  "old_basket =
     [(''Items'', JList [JObj [(''BasketItemId'', JInt 31), (''Title'', JStr ''Cola'')],
                         JObj [(''BasketItemId'', JInt 32), (''Title'', JStr ''Wedges'')]])]"

definition shop :: Dominos where
  "shop = Dominos_fields\<lparr>sess := \<lparr>cookies = [(''sid'', ''abc'')]\<rparr>,
             menu_version := JStr ''635603832000000000'',
             basket := Some old_basket, heap := [pizza]\<rparr>"

definition down :: remote where
  "down = (\<lambda>rq. TransportFailure)"

definition serve :: "int \<Rightarrow> json option \<Rightarrow> remote" where
  "serve code b = (\<lambda>rq. Reply \<lparr>status_code = code, body = b, set_cookies = []\<rparr>)"

definition menu_catalog :: json where
  "menu_catalog =
     JList [JObj [(''Name'', JStr ''Pizzas''),
                  (''Subcategories'',
                   JList [JObj [(''Type'', JStr ''Pizza''),
                                (''Products'', JList [JObj [(''ProductId'', JInt 1)],
                                                      JObj [(''ProductId'', JInt 2)]])],
                          JObj [(''Type'', JStr ''Side''),
                                (''Products'', JList [JObj [(''ProductId'', JInt 3)]])]])],
            JObj [(''Subcategories'',
                   JList [JObj [(''Type'', JStr ''Pizza''),
                                (''Products'', JList [JObj [(''ProductId'', JInt 4)]])]])]]"

definition stale :: Dominos where
  "stale = Dominos_fields\<lparr>heap := [pizza], menu := Menu_init(KStr ''Pizza'' \<mapsto> [0])\<rparr>"

section \<open>Properties\<close>

subsection \<open>select_store\<close>

lemma list_index_cases:
  "list_index xs i =
     (if 0 \<le> i \<and> i < int (length xs) then Inr (xs ! nat i)
      else if - int (length xs) \<le> i \<and> i < 0 then Inr (xs ! nat (int (length xs) + i))
      else Inl IndexError)"
  by (auto simp: list_index_def)

text \<open>
  C5, as amended. On the cached store list of length \<open>n\<close>, \<^verbatim>\<open>select_store(i)\<close> returns
  element \<open>i\<close> for \<open>0 \<le> i < n\<close>, element \<open>n + i\<close> for \<open>-n \<le> i < 0\<close> (Python counts a
  negative index from the end), and fails with IndexError for every other integer. In
  each case the client is left as it was: no request is issued and nothing is printed.
\<close>

theorem select_store_python_index:
  "select_store idx st =
     ((if 0 \<le> idx \<and> idx < int (length (stores st)) then Inr (stores st ! nat idx)
       else if - int (length (stores st)) \<le> idx \<and> idx < 0
            then Inr (stores st ! nat (int (length (stores st)) + idx))
       else Inl IndexError), st)"
  unfolding select_store_def list_index_cases by (rule refl)

theorem select_store_python_index_witness:
  "select_store 1 (Dominos_fields\<lparr>stores := two_stores\<rparr>) =
     (Inr (JObj [(''Id'', JInt 9), (''Name'', JStr ''Pimlico'')]),
      Dominos_fields\<lparr>stores := two_stores\<rparr>) \<and>
   select_store 2 (Dominos_fields\<lparr>stores := two_stores\<rparr>) =
     (Inl IndexError, Dominos_fields\<lparr>stores := two_stores\<rparr>)"
  using select_store_python_index [of 1 "Dominos_fields\<lparr>stores := two_stores\<rparr>"]
        select_store_python_index [of 2 "Dominos_fields\<lparr>stores := two_stores\<rparr>"]
  by (simp add: two_stores_def)

text \<open>
  C5 as stated fails: the index \<open>-1\<close> is outside \<open>0 \<le> i < 2\<close>, and \<^verbatim>\<open>select_store(-1)\<close>
  on two stores returns the last one instead of failing.
\<close>

theorem select_store_negative_index_counterexample:
  "\<not> (0 \<le> (-1::int) \<and> (-1::int) < int (length two_stores)) \<and>
   select_store (-1) (Dominos_fields\<lparr>stores := two_stores\<rparr>) =
     (Inr (JObj [(''Id'', JInt 9), (''Name'', JStr ''Pimlico'')]),
      Dominos_fields\<lparr>stores := two_stores\<rparr>)"
  by (simp add: select_store_def list_index_def two_stores_def)

subsection \<open>get_menu without a menu version\<close>

lemma get_menu_falsy:
  "\<not> truthy (menu_version st) \<Longrightarrow>
     get_menu net store st = (Inr None, st\<lparr>menu := Menu_init\<rparr>)"
  by (simp add: get_menu_def Let_def)

text \<open>
  C1. While \<^verbatim>\<open>menu_version\<close> is None, \<^verbatim>\<open>get_menu(store)\<close> returns None, whatever the
  store and the remote, and issues no request: the client changes in its menu only.
\<close>

theorem get_menu_without_version:
  "menu_version st = JNull \<Longrightarrow>
     get_menu net store st = (Inr None, st\<lparr>menu := Menu_init\<rparr>) \<and>
     wire (snd (get_menu net store st)) = wire st"
  by (simp add: get_menu_falsy)

theorem get_menu_without_version_witness:
  "menu_version Dominos_fields = JNull \<and>
   get_menu (\<lambda>rq. TransportFailure) (JObj [(''Id'', JInt 7)]) Dominos_fields =
     (Inr None, Dominos_fields\<lparr>menu := Menu_init\<rparr>) \<and>
   wire (snd (get_menu (\<lambda>rq. TransportFailure) (JObj [(''Id'', JInt 7)]) Dominos_fields)) =
     wire Dominos_fields"
proof -
  have h: "menu_version Dominos_fields = JNull"
    by (simp add: Dominos_fields_def)
  show ?thesis
    using h get_menu_without_version [OF h, of "\<lambda>rq. TransportFailure" "JObj [(''Id'', JInt 7)]"]
    by simp
qed

subsection \<open>add_item: the pizza payload\<close>

lemma shop_simps:
  "heap shop = [pizza]" "wire shop = []" "basket shop = Some old_basket"
  "cookies (sess shop) = [(''sid'', ''abc'')]" "stores shop = []"
  "menu_version shop = JStr ''635603832000000000''" "stdout shop = []"
  by (simp_all add: shop_def Dominos_fields_def)

lemma dict_get_dict_set:
  "dict_get (dict_set d k v) k' = (if k' = k then Some v else dict_get d k')"
  by (induction d) (auto simp: dict_get_def)

lemma getattr_dict_set:
  "getattr (dict_set d k v) k' = (if k' = k then Inr v else getattr d k')"
  by (simp add: getattr_def dict_get_dict_set)

lemma add_item_sent:
  "add_item_payload item size_idx st = (Inr (u, payload), st1) \<Longrightarrow>
     wire (snd (add_item net item size_idx st)) =
       wire st1 @ [(mk_request POST u)
                     \<lparr>rq_data := Some payload, rq_headers := json_headers,
                      rq_cookies := cookies (sess st1)\<rparr>]"
  by (auto simp: add_item_def sess_send_def Let_def split: outcome.splits sum.splits)

lemma add_item_payload_pizza:
  assumes "getattr (heap st ! item) ''Type'' = Inr (JStr ''Pizza'')"
      and "getattr (heap st ! item) ''ProductSkus'' = Inr skus"
      and "subscript_int skus size_idx = Inr sku"
      and "subscript_str sku ''Ingredients'' = Inr (JList ingredients)"
      and "getattr (heap st ! item) ''ProductId'' = Inr product_id"
  shows "add_item_payload item size_idx st =
           (Inr (base_url @ ''/Basket/AddPizza/'',
                 JObj [(''stepId'', JInt 0),
                       (''quantity'', JInt 1),
                       (''sizeId'', JInt size_idx),
                       (''productId'', product_id),
                       (''ingredients'', JList (ingredients @ [JInt 42, JInt 36])),
                       (''productIdHalfTwo'', JInt 0),
                       (''ingredientsHalfTwo'', JList []),
                       (''recipeReferrer'', JInt 0)]),
            st\<lparr>heap := (heap st)
                   [item := dict_set (heap st ! item) ''ProductSkus''
                      (update_int skus size_idx
                         (update_str sku ''Ingredients''
                            (JList (ingredients @ [JInt 42, JInt 36]))))]\<rparr>)"
  using assms by (simp add: add_item_payload_def Let_def getattr_dict_set)

text \<open>
  C3. For an Item whose Type is Pizza, with a size index that selects a variant
  carrying an ingredient list, \<^verbatim>\<open>add_item\<close> issues exactly one request: a POST to
  AddPizza whose payload has, as \<^verbatim>\<open>ingredients\<close>, the variant's list followed by 42
  and 36, whatever that list holds. The two ids are constants of the code; \<^verbatim>\<open>add_item\<close>
  takes no argument that could change them.
\<close>

theorem add_item_pizza_ingredients:
  assumes "getattr (heap st ! item) ''Type'' = Inr (JStr ''Pizza'')"
      and "getattr (heap st ! item) ''ProductSkus'' = Inr skus"
      and "subscript_int skus size_idx = Inr sku"
      and "subscript_str sku ''Ingredients'' = Inr (JList ingredients)"
      and "getattr (heap st ! item) ''ProductId'' = Inr product_id"
  shows "wire (snd (add_item net item size_idx st)) =
           wire st @
           [(mk_request POST (base_url @ ''/Basket/AddPizza/''))
              \<lparr>rq_data := Some (JObj [(''stepId'', JInt 0),
                                     (''quantity'', JInt 1),
                                     (''sizeId'', JInt size_idx),
                                     (''productId'', product_id),
                                     (''ingredients'', JList (ingredients @ [JInt 42, JInt 36])),
                                     (''productIdHalfTwo'', JInt 0),
                                     (''ingredientsHalfTwo'', JList []),
                                     (''recipeReferrer'', JInt 0)]),
               rq_headers := json_headers,
               rq_cookies := cookies (sess st)\<rparr>]"
  using add_item_sent [OF add_item_payload_pizza [OF assms]] by simp

theorem add_item_pizza_ingredients_witness:
  "wire (snd (add_item down 0 1 shop)) =
     [(mk_request POST (base_url @ ''/Basket/AddPizza/''))
        \<lparr>rq_data := Some (JObj [(''stepId'', JInt 0),
                               (''quantity'', JInt 1),
                               (''sizeId'', JInt 1),
                               (''productId'', JInt 12),
                               (''ingredients'', JList [JInt 5, JInt 7, JInt 42, JInt 36]),
                               (''productIdHalfTwo'', JInt 0),
                               (''ingredientsHalfTwo'', JList []),
                               (''recipeReferrer'', JInt 0)]),
         rq_headers := json_headers,
         rq_cookies := [(''sid'', ''abc'')]\<rparr>]"
  using add_item_pizza_ingredients [of shop 0
          "JList [JObj [(''ProductSkuId'', JInt 101), (''Ingredients'', JList [JInt 5])],
                  JObj [(''ProductSkuId'', JInt 102), (''Ingredients'', JList [JInt 5, JInt 7])]]"
          1 "JObj [(''ProductSkuId'', JInt 102), (''Ingredients'', JList [JInt 5, JInt 7])]"
          "[JInt 5, JInt 7]" "JInt 12" down]
  by (simp add: shop_simps pizza_def getattr_def dict_get_def list_index_def)

subsection \<open>add_item: the Item after the call\<close>

text \<open>
  C6. The claim says that \<^verbatim>\<open>add_item\<close> leaves the Item it is given as it was. It does
  not: for a Pizza, \<^verbatim>\<open>ingredients += [42, 36]\<close> extends the size variant's own list.
  After \<^verbatim>\<open>add_item(pizza, 0)\<close> the first variant of the Item reads \<open>[5, 42, 36]\<close> where
  it read \<open>[5]\<close>.
\<close>

theorem add_item_mutates_item:
  "getattr (heap shop ! 0) ''ProductSkus'' =
     Inr (JList [JObj [(''ProductSkuId'', JInt 101), (''Ingredients'', JList [JInt 5])],
                 JObj [(''ProductSkuId'', JInt 102), (''Ingredients'', JList [JInt 5, JInt 7])]]) \<and>
   getattr (heap (snd (add_item (serve 200 (Some (JObj []))) 0 0 shop)) ! 0) ''ProductSkus'' =
     Inr (JList [JObj [(''ProductSkuId'', JInt 101),
                       (''Ingredients'', JList [JInt 5, JInt 42, JInt 36])],
                 JObj [(''ProductSkuId'', JInt 102), (''Ingredients'', JList [JInt 5, JInt 7])]])"
  by (simp add: add_item_def add_item_payload_def shop_simps pizza_def getattr_def dict_get_def
        list_index_def Let_def sess_send_def serve_def try_Basket_def r_json_def Basket_init_def)

subsection \<open>reset_session\<close>

text \<open>
  C9, as amended. \<^verbatim>\<open>reset_session\<close> issues one GET to SessionExpire. Whenever that
  request is answered, whatever the status and the body of the answer, the call
  completes with no value and the client holds a new session with an empty cookie jar.
  When the request gets no answer, the transport error of \<^verbatim>\<open>requests\<close> is not caught: it
  reaches the caller, and the session, with its jar, is the one from before the call.
\<close>

theorem reset_session_replaces_jar:
  "let rq = (mk_request GET (base_url @ ''/Home/SessionExpire''))
              \<lparr>rq_cookies := cookies (sess st)\<rparr>
   in wire (snd (reset_session net st)) = wire st @ [rq] \<and>
      (\<forall>r. net rq = Reply r \<longrightarrow>
         fst (reset_session net st) = Inr () \<and>
         sess (snd (reset_session net st)) = requests_session \<and>
         cookies (sess (snd (reset_session net st))) = []) \<and>
      (net rq = TransportFailure \<longrightarrow>
         fst (reset_session net st) = Inl TransportError \<and>
         sess (snd (reset_session net st)) = sess st)"
  by (auto simp: reset_session_def sess_send_def Let_def requests_session_def
           split: outcome.splits)

theorem reset_session_replaces_jar_witness:
  "fst (reset_session (serve 500 None) shop) = Inr () \<and>
   cookies (sess (snd (reset_session (serve 500 None) shop))) = [] \<and>
   fst (reset_session down shop) = Inl TransportError \<and>
   sess (snd (reset_session down shop)) = sess shop"
  using reset_session_replaces_jar [where net = "serve 500 None" and st = shop]
        reset_session_replaces_jar [where net = down and st = shop]
  by (simp add: serve_def down_def requests_session_def Let_def)

text \<open>
  C9 as stated fails: when the SessionExpire request gets no answer, the call does not
  complete and the cookie of the old jar is still there.
\<close>

theorem reset_session_transport_counterexample:
  "fst (reset_session down shop) = Inl TransportError \<and>
   cookies (sess (snd (reset_session down shop))) = [(''sid'', ''abc'')]"
  by (simp add: reset_session_def sess_send_def Let_def down_def shop_simps)

subsection \<open>add_item: the cached basket\<close>

lemma add_item_payload_frame:
  "basket (snd (add_item_payload item size_idx st)) = basket st"
  "wire (snd (add_item_payload item size_idx st)) = wire st"
  "sess (snd (add_item_payload item size_idx st)) = sess st"
  by (simp_all add: add_item_payload_def Let_def split: sum.splits)

lemma add_item_cases:
  "add_item net item size_idx st =
     (case add_item_payload item size_idx st of
        (Inl e, st1) \<Rightarrow> (Inl e, st1)
      | (Inr (u, payload), st1) \<Rightarrow>
          (let rq = (mk_request POST u)
                      \<lparr>rq_data := Some payload, rq_headers := json_headers,
                       rq_cookies := cookies (sess st1)\<rparr>;
               st2 = st1\<lparr>wire := wire st1 @ [rq]\<rparr>
           in case net rq of
                TransportFailure \<Rightarrow> (Inl TransportError, st2)
              | Reply r \<Rightarrow>
                  (let st3 = st2\<lparr>sess := \<lparr>cookies = set_cookies r @ cookies (sess st1)\<rparr>\<rparr>
                   in if status_code r \<noteq> 200 then (Inr False, st3)
                      else case try_Basket r of
                             Inl e \<Rightarrow> (Inr False, st3)
                           | Inr b \<Rightarrow> (Inr True, st3\<lparr>basket := Some b\<rparr>))))"
  unfolding add_item_def sess_send_def Let_def
  by (auto split: prod.splits sum.splits outcome.splits)

text \<open>
  C4. Take any call of \<^verbatim>\<open>add_item\<close> with its result and final state. If the call
  issued a request and the response to it has a status other than 200 or a body that
  does not parse, the result is False and the cached basket is the one from before.
  And the cached basket differs from the one before only if a request was issued, its
  response had status 200 and a body that parses, to an object that a Basket can be
  built from; the result is then True and the cached basket is that Basket.
\<close>

theorem add_item_failure_keeps_basket:
  assumes "add_item net item size_idx st = (res, st')"
  shows "(\<forall>rq r. wire st' = wire st @ [rq] \<and> net rq = Reply r \<and>
                 (status_code r \<noteq> 200 \<or> body r = None) \<longrightarrow>
            res = Inr False \<and> basket st' = basket st) \<and>
         (basket st' \<noteq> basket st \<longrightarrow>
            (\<exists>rq r v b. wire st' = wire st @ [rq] \<and> net rq = Reply r \<and>
               status_code r = 200 \<and> body r = Some v \<and> Basket_init v = Inr b \<and>
               res = Inr True \<and> basket st' = Some b))"
proof (cases "add_item_payload item size_idx st")
  case (Pair pr st1)
  have fr: "basket st1 = basket st" "wire st1 = wire st" "sess st1 = sess st"
    using add_item_payload_frame [of item size_idx st] Pair by simp_all
  show ?thesis
  proof (cases pr)
    case (Inl e)
    with Pair assms fr show ?thesis by (auto simp: add_item_cases)
  next
    case (Inr up)
    obtain u payload where up: "up = (u, payload)" by (cases up)
    let ?rq = "(mk_request POST u)
                 \<lparr>rq_data := Some payload, rq_headers := json_headers,
                  rq_cookies := cookies (sess st1)\<rparr>"
    show ?thesis
    proof (cases "net ?rq")
      case TransportFailure
      with Pair Inr up assms fr show ?thesis by (auto simp: add_item_cases Let_def)
    next
      case (Reply r)
      with Pair Inr up assms fr show ?thesis
        by (auto simp: add_item_cases Let_def try_Basket_def r_json_def
                 split: if_splits sum.splits option.splits)
    qed
  qed
qed

theorem add_item_failure_keeps_basket_witness:
  "length (wire (snd (add_item (serve 500 (Some (JObj []))) 0 0 shop))) =
     Suc (length (wire shop)) \<and>
   fst (add_item (serve 500 (Some (JObj []))) 0 0 shop) = Inr False \<and>
   basket (snd (add_item (serve 500 (Some (JObj []))) 0 0 shop)) = Some old_basket \<and>
   basket (snd (add_item (serve 200 (Some (JObj [(''Items'', JList [])]))) 0 0 shop)) \<noteq>
     basket shop \<and>
   fst (add_item (serve 200 (Some (JObj [(''Items'', JList [])]))) 0 0 shop) = Inr True"
proof -
  let ?a = "add_item (serve 500 (Some (JObj []))) 0 0 shop"
  let ?b = "add_item (serve 200 (Some (JObj [(''Items'', JList [])]))) 0 0 shop"
  let ?payload = "JObj [(''stepId'', JInt 0),
                        (''quantity'', JInt 1),
                        (''sizeId'', JInt 0),
                        (''productId'', JInt 12),
                        (''ingredients'', JList ([JInt 5] @ [JInt 42, JInt 36])),
                        (''productIdHalfTwo'', JInt 0),
                        (''ingredientsHalfTwo'', JList []),
                        (''recipeReferrer'', JInt 0)]"
  let ?sku = "JObj [(''ProductSkuId'', JInt 101), (''Ingredients'', JList [JInt 5])]"
  let ?skus = "JList [?sku, JObj [(''ProductSkuId'', JInt 102),
                                  (''Ingredients'', JList [JInt 5, JInt 7])]]"
  have pay: "add_item_payload 0 0 shop =
               (Inr (base_url @ ''/Basket/AddPizza/'', ?payload),
                shop\<lparr>heap := (heap shop)
                   [0 := dict_set (heap shop ! 0) ''ProductSkus''
                      (update_int ?skus 0
                         (update_str ?sku ''Ingredients''
                            (JList ([JInt 5] @ [JInt 42, JInt 36]))))]\<rparr>)"
    by (rule add_item_payload_pizza)
       (simp_all add: shop_simps pizza_def getattr_def dict_get_def list_index_def)
  have wa: "wire (snd ?a) =
              wire shop @ [(mk_request POST (base_url @ ''/Basket/AddPizza/''))
                             \<lparr>rq_data := Some ?payload, rq_headers := json_headers,
                              rq_cookies := cookies (sess shop)\<rparr>]"
    using add_item_sent [OF pay, of "serve 500 (Some (JObj []))"] by simp
  have a: "fst ?a = Inr False \<and> basket (snd ?a) = basket shop"
    using add_item_failure_keeps_basket
            [of "serve 500 (Some (JObj []))" 0 0 shop "fst ?a" "snd ?a"] wa
    by (simp add: serve_def)
  have nb: "basket (snd ?b) \<noteq> basket shop"
    by (simp add: add_item_cases pay Let_def serve_def try_Basket_def r_json_def
          Basket_init_def shop_simps old_basket_def)
  have b: "fst ?b = Inr True"
    using add_item_failure_keeps_basket
            [of "serve 200 (Some (JObj [(''Items'', JList [])]))" 0 0 shop "fst ?b" "snd ?b"] nb
    by auto
  show ?thesis using a b nb wa by (simp add: shop_simps)
qed

subsection \<open>remove_item\<close>

lemma remove_item_cases:
  assumes "basket st = Some b"
      and "getattr b ''Items'' = Inr lines"
      and "subscript_int lines basket_item_idx = Inr line"
      and "Item_init line = Inr item"
      and "getattr item ''BasketItemId'' = Inr basket_item_id"
  shows "remove_item net basket_item_idx st =
     (let rq = (mk_request GET (base_url @ ''/Basket/RemoveBasketItem''))
                 \<lparr>rq_params := [(''basketItemId'', basket_item_id),
                                (''wizardItemDelete'', JBool False)],
                  rq_cookies := cookies (sess st)\<rparr>;
          st1 = st\<lparr>wire := wire st @ [rq]\<rparr>
      in case net rq of
           TransportFailure \<Rightarrow> (Inl TransportError, st1)
         | Reply r \<Rightarrow>
             (let st2 = st1\<lparr>sess := \<lparr>cookies = set_cookies r @ cookies (sess st)\<rparr>\<rparr>
              in if status_code r \<noteq> 200
                 then (Inr (), print ''[Error] Connection failed to remove item.'' [] st2)
                 else case try_Basket r of
                        Inl e \<Rightarrow>
                          (Inr (), print ''[Error] Error removing item. Invalid response.'' [] st2)
                      | Inr b1 \<Rightarrow>
                          (case getattr item ''Title'' of
                             Inl e \<Rightarrow> (Inl e, st2\<lparr>basket := Some b1\<rparr>)
                           | Inr title \<Rightarrow>
                               (Inr (), print ''[OK] Removed %s'' [title]
                                          (st2\<lparr>basket := Some b1\<rparr>)))))"
  using assms unfolding remove_item_def sess_send_def Let_def
  by (auto split: sum.splits outcome.splits)

text \<open>
  C8. Let position \<open>basket_item_idx\<close> of the cached basket's \<^verbatim>\<open>Items\<close> hold a line item
  with a \<^verbatim>\<open>BasketItemId\<close>. Then \<^verbatim>\<open>remove_item\<close> issues exactly one request, a GET to
  RemoveBasketItem whose parameters are \<^verbatim>\<open>basketItemId\<close>, the line item's own id, and
  \<^verbatim>\<open>wizardItemDelete\<close>, False: the position is not sent. A response with status 200
  whose body parses to an object becomes the cached basket. When the request gets no
  answer, or the status is not 200, or the body does not parse, or it parses to
  something no Basket can be built from (a value that is not an object, or an object
  with a key \<^verbatim>\<open>self\<close>), the cached basket is the one from before. So the cached
  basket differs afterwards only if the response had status 200 and a body that
  parses to an object, and it is then that object.
\<close>

theorem remove_item_by_own_id:
  assumes "basket st = Some b"
      and "getattr b ''Items'' = Inr lines"
      and "subscript_int lines basket_item_idx = Inr line"
      and "Item_init line = Inr item"
      and "getattr item ''BasketItemId'' = Inr basket_item_id"
  shows "let rq = (mk_request GET (base_url @ ''/Basket/RemoveBasketItem''))
                    \<lparr>rq_params := [(''basketItemId'', basket_item_id),
                                   (''wizardItemDelete'', JBool False)],
                     rq_cookies := cookies (sess st)\<rparr>
         in wire (snd (remove_item net basket_item_idx st)) = wire st @ [rq] \<and>
            (\<forall>r d. net rq = Reply r \<and> status_code r = 200 \<and>
                   body r = Some (JObj d) \<and> ''self'' \<notin> fst ` set d \<longrightarrow>
               basket (snd (remove_item net basket_item_idx st)) = Some d) \<and>
            (net rq = TransportFailure \<longrightarrow>
               basket (snd (remove_item net basket_item_idx st)) = basket st) \<and>
            (\<forall>r. net rq = Reply r \<and> (status_code r \<noteq> 200 \<or> body r = None) \<longrightarrow>
               basket (snd (remove_item net basket_item_idx st)) = basket st) \<and>
            (\<forall>r v. net rq = Reply r \<and> body r = Some v \<and>
                   (\<forall>d. v = JObj d \<longrightarrow> ''self'' \<in> fst ` set d) \<longrightarrow>
               basket (snd (remove_item net basket_item_idx st)) = basket st) \<and>
            (basket (snd (remove_item net basket_item_idx st)) \<noteq> basket st \<longrightarrow>
               (\<exists>r d. net rq = Reply r \<and> status_code r = 200 \<and>
                      body r = Some (JObj d) \<and> ''self'' \<notin> fst ` set d \<and>
                      basket (snd (remove_item net basket_item_idx st)) = Some d))"
proof -
  let ?rq = "(mk_request GET (base_url @ ''/Basket/RemoveBasketItem''))
               \<lparr>rq_params := [(''basketItemId'', basket_item_id),
                              (''wizardItemDelete'', JBool False)],
                rq_cookies := cookies (sess st)\<rparr>"
  let ?st' = "snd (remove_item net basket_item_idx st)"
  have w: "wire ?st' = wire st @ [?rq]"
    unfolding remove_item_cases [OF assms] Let_def
    by (simp add: print_def split: outcome.splits sum.splits)
  have bk: "basket ?st' =
              (case net ?rq of
                 TransportFailure \<Rightarrow> basket st
               | Reply r \<Rightarrow>
                   if status_code r \<noteq> 200 then basket st
                   else (case try_Basket r of Inl e \<Rightarrow> basket st | Inr b1 \<Rightarrow> Some b1))"
    unfolding remove_item_cases [OF assms] Let_def
    by (simp add: print_def split: outcome.splits sum.splits)
  have tb: "\<And>r. try_Basket r =
              (case body r of
                 None \<Rightarrow> Inl ValueError
               | Some v \<Rightarrow>
                   (case v of
                      JObj d \<Rightarrow> if ''self'' \<in> fst ` set d then Inl TypeError else Inr d
                    | _ \<Rightarrow> Inl TypeError))"
    by (simp add: try_Basket_def r_json_def Basket_init_def split: option.splits json.splits)
  have c1: "\<forall>r d. net ?rq = Reply r \<and> status_code r = 200 \<and>
                  body r = Some (JObj d) \<and> ''self'' \<notin> fst ` set d \<longrightarrow>
              basket ?st' = Some d"
    by (simp add: bk tb)
  have c2: "net ?rq = TransportFailure \<longrightarrow> basket ?st' = basket st"
    by (simp add: bk)
  have c3: "\<forall>r. net ?rq = Reply r \<and> (status_code r \<noteq> 200 \<or> body r = None) \<longrightarrow>
              basket ?st' = basket st"
    by (auto simp: bk tb)
  have c4: "\<forall>r v. net ?rq = Reply r \<and> body r = Some v \<and>
                  (\<forall>d. v = JObj d \<longrightarrow> ''self'' \<in> fst ` set d) \<longrightarrow>
              basket ?st' = basket st"
    by (auto simp: bk tb split: json.splits)
  have c5: "basket ?st' \<noteq> basket st \<longrightarrow>
              (\<exists>r d. net ?rq = Reply r \<and> status_code r = 200 \<and>
                     body r = Some (JObj d) \<and> ''self'' \<notin> fst ` set d \<and>
                     basket ?st' = Some d)"
  proof
    assume ne: "basket ?st' \<noteq> basket st"
    then obtain r where r: "net ?rq = Reply r"
      by (cases "net ?rq") (simp_all add: bk)
    from ne r have s: "status_code r = 200"
      by (auto simp: bk split: if_splits)
    from ne r s obtain b1 where t: "try_Basket r = Inr b1"
      by (cases "try_Basket r") (simp_all add: bk)
    from t have "body r = Some (JObj b1) \<and> ''self'' \<notin> fst ` set b1"
      by (auto simp: tb split: option.splits json.splits if_splits)
    moreover have "basket ?st' = Some b1"
      using r s t by (simp add: bk)
    ultimately show "\<exists>r d. net ?rq = Reply r \<and> status_code r = 200 \<and>
                     body r = Some (JObj d) \<and> ''self'' \<notin> fst ` set d \<and>
                     basket ?st' = Some d"
      using r s by blast
  qed
  show ?thesis
    unfolding Let_def using w c1 c2 c3 c4 c5 by blast
qed

theorem remove_item_by_own_id_witness:
  "wire (snd (remove_item (serve 200 (Some (JObj [(''Items'', JList [])]))) 0 shop)) =
     [(mk_request GET (base_url @ ''/Basket/RemoveBasketItem''))
        \<lparr>rq_params := [(''basketItemId'', JInt 31), (''wizardItemDelete'', JBool False)],
         rq_cookies := [(''sid'', ''abc'')]\<rparr>] \<and>
   basket (snd (remove_item (serve 200 (Some (JObj [(''Items'', JList [])]))) 0 shop)) =
     Some [(''Items'', JList [])] \<and>
   basket (snd (remove_item (serve 200 (Some (JObj [(''Items'', JList [])]))) 0 shop)) \<noteq>
     basket shop \<and>
   basket (snd (remove_item down 0 shop)) = Some old_basket \<and>
   basket (snd (remove_item (serve 200 None) 0 shop)) = Some old_basket \<and>
   basket (snd (remove_item (serve 500 (Some (JObj []))) 0 shop)) = Some old_basket \<and>
   basket (snd (remove_item (serve 200 (Some (JList []))) 0 shop)) = Some old_basket \<and>
   basket (snd (remove_item (serve 200 (Some JNull)) 0 shop)) = Some old_basket \<and>
   basket (snd (remove_item (serve 200 (Some (JObj [(''self'', JInt 1)]))) 0 shop)) =
     Some old_basket"
proof -
  let ?line = "JObj [(''BasketItemId'', JInt 31), (''Title'', JStr ''Cola'')]"
  let ?lines = "JList [?line, JObj [(''BasketItemId'', JInt 32), (''Title'', JStr ''Wedges'')]]"
  have h: "basket shop = Some old_basket"
          "getattr old_basket ''Items'' = Inr ?lines"
          "subscript_int ?lines 0 = Inr ?line"
          "Item_init ?line = Inr [(''BasketItemId'', JInt 31), (''Title'', JStr ''Cola'')]"
          "getattr [(''BasketItemId'', JInt 31), (''Title'', JStr ''Cola'')] ''BasketItemId'' =
             Inr (JInt 31)"
    by (simp_all add: shop_simps old_basket_def getattr_def dict_get_def list_index_def
          Item_init_def)
  note t = remove_item_by_own_id [OF h, unfolded Let_def]
  have w: "wire (snd (remove_item (serve 200 (Some (JObj [(''Items'', JList [])]))) 0 shop)) =
     [(mk_request GET (base_url @ ''/Basket/RemoveBasketItem''))
        \<lparr>rq_params := [(''basketItemId'', JInt 31), (''wizardItemDelete'', JBool False)],
         rq_cookies := [(''sid'', ''abc'')]\<rparr>]"
    using t [where net = "serve 200 (Some (JObj [(''Items'', JList [])]))", THEN conjunct1]
    by (simp add: shop_simps)
  have ok: "basket (snd (remove_item (serve 200 (Some (JObj [(''Items'', JList [])]))) 0 shop)) =
              Some [(''Items'', JList [])]"
    using t [where net = "serve 200 (Some (JObj [(''Items'', JList [])]))",
             THEN conjunct2, THEN conjunct1, rule_format,
             of "\<lparr>status_code = 200, body = Some (JObj [(''Items'', JList [])]),
                  set_cookies = []\<rparr>" "[(''Items'', JList [])]"]
    by (simp add: serve_def)
  have ne: "basket (snd (remove_item (serve 200 (Some (JObj [(''Items'', JList [])]))) 0 shop)) \<noteq>
              basket shop"
    by (simp add: ok shop_simps old_basket_def)
  have dn: "basket (snd (remove_item down 0 shop)) = Some old_basket"
    using t [where net = down, THEN conjunct2, THEN conjunct2, THEN conjunct1]
    by (simp add: down_def shop_simps)
  have un: "basket (snd (remove_item (serve 200 None) 0 shop)) = Some old_basket"
    using t [where net = "serve 200 None",
             THEN conjunct2, THEN conjunct2, THEN conjunct2, THEN conjunct1, rule_format,
             of "\<lparr>status_code = 200, body = None, set_cookies = []\<rparr>"]
    by (simp add: serve_def shop_simps)
  have st: "basket (snd (remove_item (serve 500 (Some (JObj []))) 0 shop)) = Some old_basket"
    using t [where net = "serve 500 (Some (JObj []))",
             THEN conjunct2, THEN conjunct2, THEN conjunct2, THEN conjunct1, rule_format,
             of "\<lparr>status_code = 500, body = Some (JObj []), set_cookies = []\<rparr>"]
    by (simp add: serve_def shop_simps)
  have li: "basket (snd (remove_item (serve 200 (Some (JList []))) 0 shop)) = Some old_basket"
    using t [where net = "serve 200 (Some (JList []))",
             THEN conjunct2, THEN conjunct2, THEN conjunct2, THEN conjunct2, THEN conjunct1,
             rule_format,
             of "\<lparr>status_code = 200, body = Some (JList []), set_cookies = []\<rparr>" "JList []"]
    by (simp add: serve_def shop_simps)
  have nu: "basket (snd (remove_item (serve 200 (Some JNull)) 0 shop)) = Some old_basket"
    using t [where net = "serve 200 (Some JNull)",
             THEN conjunct2, THEN conjunct2, THEN conjunct2, THEN conjunct2, THEN conjunct1,
             rule_format,
             of "\<lparr>status_code = 200, body = Some JNull, set_cookies = []\<rparr>" JNull]
    by (simp add: serve_def shop_simps)
  have se: "basket (snd (remove_item (serve 200 (Some (JObj [(''self'', JInt 1)]))) 0 shop)) =
              Some old_basket"
    using t [where net = "serve 200 (Some (JObj [(''self'', JInt 1)]))",
             THEN conjunct2, THEN conjunct2, THEN conjunct2, THEN conjunct2, THEN conjunct1,
             rule_format,
             of "\<lparr>status_code = 200, body = Some (JObj [(''self'', JInt 1)]),
                  set_cookies = []\<rparr>" "JObj [(''self'', JInt 1)]"]
    by (simp add: serve_def shop_simps)
  from w ok ne dn un st li nu se show ?thesis by (intro conjI)
qed

subsection \<open>get_menu: the indexes of the items\<close>

lemma index_from_append:
  "index_from k (xs @ ys) = index_from k xs @ index_from (k + int (length xs)) ys"
  by (induction xs arbitrary: k) (simp_all add: add.assoc)

lemma length_index_from [simp]: "length (index_from k ps) = length ps"
  by (induction ps arbitrary: k) simp_all

lemma nth_index_from:
  "n < length ps \<Longrightarrow> index_from k ps ! n = indexed_item (k + int n) (ps ! n)"
proof (induction ps arbitrary: k n)
  case Nil
  then show ?case by simp
next
  case (Cons p ps)
  then show ?case by (cases n) (simp_all add: add.assoc)
qed

lemma addrs_in_append:
  "addrs_in c n (xs @ ys) = addrs_in c n xs @ addrs_in c (n + length xs) ys"
  by (induction xs arbitrary: n) simp_all

lemma Menu_addItem_listing:
  assumes "Menu_addItem m category a = Inr m'"
  shows "\<exists>c. hash_key category = Inr c \<and>
             (\<forall>c'. listing m' c' = listing m c' @ (if c' = c then [a] else []))"
  using assms
  by (auto simp: Menu_addItem_def listing_def Let_def split: sum.splits option.splits)

lemma products_loop_frame:
  "wire (snd (snd (products_loop i ps idx st))) = wire st"
  "sess (snd (snd (products_loop i ps idx st))) = sess st"
  "basket (snd (snd (products_loop i ps idx st))) = basket st"
  "stores (snd (snd (products_loop i ps idx st))) = stores st"
  "menu_version (snd (snd (products_loop i ps idx st))) = menu_version st"
  "stdout (snd (snd (products_loop i ps idx st))) = stdout st"
  by (induction i ps idx st rule: products_loop.induct;
      simp add: Let_def split: sum.splits)+


lemma subcategories_loop_frame:
  "wire (snd (snd (subcategories_loop subs idx st))) = wire st"
  "sess (snd (snd (subcategories_loop subs idx st))) = sess st"
  "basket (snd (snd (subcategories_loop subs idx st))) = basket st"
  "stores (snd (snd (subcategories_loop subs idx st))) = stores st"
  "menu_version (snd (snd (subcategories_loop subs idx st))) = menu_version st"
  "stdout (snd (snd (subcategories_loop subs idx st))) = stdout st"
  by (induction subs idx st rule: subcategories_loop.induct;
      simp split: sum.splits prod.splits option.splits;
      metis products_loop_frame snd_conv)+

lemma groups_loop_frame:
  "wire (snd (snd (groups_loop items idx st))) = wire st"
  "sess (snd (snd (groups_loop items idx st))) = sess st"
  "basket (snd (snd (groups_loop items idx st))) = basket st"
  "stores (snd (snd (groups_loop items idx st))) = stores st"
  "menu_version (snd (snd (groups_loop items idx st))) = menu_version st"
  "stdout (snd (snd (groups_loop items idx st))) = stdout st"
  by (induction items idx st rule: groups_loop.induct;
      simp split: sum.splits prod.splits option.splits;
      metis subcategories_loop_frame snd_conv)+

lemma products_loop_ok:
  "products_loop i ps idx st = (None, idx', st') \<Longrightarrow>
     idx' = idx + int (length ps) \<and>
     heap st' = heap st @ index_from idx ps \<and>
     (\<forall>c. listing (menu st') c =
            listing (menu st) c @ addrs_in c (length (heap st)) (map (Pair i) ps)) \<and>
     (ps \<noteq> [] \<longrightarrow> category_of i \<noteq> None) \<and>
     (\<forall>p \<in> set ps. \<exists>d. p = JObj d)"
proof (induction ps arbitrary: idx st)
  case Nil
  then show ?case by simp
next
  case (Cons p ps)
  from Cons.prems obtain p1 category m where
    p1: "setitem_str p ''idx'' (JInt idx) = Inr p1" and
    cat: "subscript_str i ''Type'' = Inr category" and
    obj: "Item_init (JObj p1) = Inr p1" and
    add: "Menu_addItem (menu st) category (length (heap st)) = Inr m" and
    rest: "products_loop i ps (idx + 1) (st\<lparr>heap := heap st @ [p1], menu := m\<rparr>) =
             (None, idx', st')"
    by (auto simp: Let_def Item_init_def split: sum.splits if_splits)
  from Menu_addItem_listing [OF add] obtain c where
    c: "hash_key category = Inr c" and
    l: "\<And>c'. listing m c' = listing (menu st) c' @ (if c' = c then [length (heap st)] else [])"
    by blast
  have co: "category_of i = Some c"
    using cat c by (simp add: category_of_def key_of_def)
  have ii: "indexed_item idx p = p1"
    using p1 by (simp add: indexed_item_def)
  have pd: "\<exists>d. p = JObj d"
    using p1 by (cases p) simp_all
  from Cons.IH [OF rest] show ?case
    using co ii l pd by (auto simp: add.assoc)
qed


lemma flatten_subcategories_Cons:
  "flatten_subcategories (i # subs) =
     map (Pair i) (children ''Products'' i) @ flatten_subcategories subs"
  by (simp add: flatten_subcategories_def)

lemma flatten_groups_Cons:
  "flatten_groups (item # items) =
     flatten_subcategories (children ''Subcategories'' item) @ flatten_groups items"
  by (simp add: flatten_groups_def)

lemma subcategories_loop_ok:
  "subcategories_loop subs idx st = (None, idx', st') \<Longrightarrow>
     idx' = idx + int (length (flatten_subcategories subs)) \<and>
     heap st' = heap st @ index_from idx (map snd (flatten_subcategories subs)) \<and>
     (\<forall>c. listing (menu st') c =
            listing (menu st) c @ addrs_in c (length (heap st)) (flatten_subcategories subs)) \<and>
     (\<forall>ip \<in> set (flatten_subcategories subs).
        category_of (fst ip) \<noteq> None \<and> (\<exists>d. snd ip = JObj d))"
proof (induction subs arbitrary: idx st)
  case Nil
  then show ?case by (simp add: flatten_subcategories_def)
next
  case (Cons i subs)
  from Cons.prems obtain products ps idx1 st1 where
    pr: "subscript_str i ''Products'' = Inr products" and
    it: "py_iter products = Inr ps" and
    inner: "products_loop i ps idx st = (None, idx1, st1)" and
    rest: "subcategories_loop subs idx1 st1 = (None, idx', st')"
    by (auto split: sum.splits prod.splits option.splits)
  have ch: "children ''Products'' i = ps"
    using pr it by (simp add: children_def)
  note a = products_loop_ok [OF inner]
  note b = Cons.IH [OF rest]
  have len: "length (heap st1) = length (heap st) + length ps"
    using a by simp
  show ?case
    unfolding flatten_subcategories_Cons ch
    using a b len
    by (auto simp: index_from_append addrs_in_append comp_def add.assoc)
qed

lemma groups_loop_ok:
  "groups_loop items idx st = (None, idx', st') \<Longrightarrow>
     idx' = idx + int (length (flatten_groups items)) \<and>
     heap st' = heap st @ index_from idx (map snd (flatten_groups items)) \<and>
     (\<forall>c. listing (menu st') c =
            listing (menu st) c @ addrs_in c (length (heap st)) (flatten_groups items)) \<and>
     (\<forall>ip \<in> set (flatten_groups items).
        category_of (fst ip) \<noteq> None \<and> (\<exists>d. snd ip = JObj d))"
proof (induction items arbitrary: idx st)
  case Nil
  then show ?case by (simp add: flatten_groups_def)
next
  case (Cons item items)
  from Cons.prems obtain subcategories subs idx1 st1 where
    pr: "subscript_str item ''Subcategories'' = Inr subcategories" and
    it: "py_iter subcategories = Inr subs" and
    inner: "subcategories_loop subs idx st = (None, idx1, st1)" and
    rest: "groups_loop items idx1 st1 = (None, idx', st')"
    by (auto split: sum.splits prod.splits option.splits)
  have ch: "children ''Subcategories'' item = subs"
    using pr it by (simp add: children_def)
  note a = subcategories_loop_ok [OF inner]
  note b = Cons.IH [OF rest]
  have len: "length (heap st1) = length (heap st) + length (flatten_subcategories subs)"
    using a by simp
  show ?case
    unfolding flatten_groups_Cons ch
    using a b len
    by (auto simp: index_from_append addrs_in_append add.assoc)
qed


lemma addrs_in_closed:
  "addrs_in c n fl =
     map (\<lambda>k. n + k) (filter (\<lambda>k. category_of (fst (fl ! k)) = Some c) [0..<length fl])"
proof (induction fl arbitrary: n)
  case Nil
  then show ?case by simp
next
  case (Cons ip fl)
  have u: "[0..<Suc (length fl)] = 0 # map Suc [0..<length fl]"
    by (simp add: upt_conv_Cons map_Suc_upt del: upt_Suc)
  show ?case
    unfolding length_Cons u
    by (simp add: Cons.IH filter_map comp_def)
qed

lemma get_menu_ok:
  assumes "get_menu net store st = (Inr (Some m), st')"
  shows "\<exists>store_id r catalog items idx.
           subscript_str store ''Id'' = Inr store_id \<and>
           net ((mk_request GET catalog_url)
                  \<lparr>rq_url_args := [menu_version st, store_id],
                   rq_cookies := cookies (sess st)\<rparr>) = Reply r \<and>
           wire st' = wire st @ [(mk_request GET catalog_url)
                  \<lparr>rq_url_args := [menu_version st, store_id],
                   rq_cookies := cookies (sess st)\<rparr>] \<and>
           body r = Some catalog \<and> py_iter catalog = Inr items \<and> m = menu st' \<and>
           groups_loop items 0
             (st\<lparr>menu := Menu_init,
                 wire := wire st @ [(mk_request GET catalog_url)
                  \<lparr>rq_url_args := [menu_version st, store_id],
                   rq_cookies := cookies (sess st)\<rparr>],
                 sess := \<lparr>cookies = set_cookies r @ cookies (sess st)\<rparr>\<rparr>) = (None, idx, st')"
proof -
  from assms have tr: "truthy (menu_version st)"
    by (auto simp: get_menu_def Let_def split: if_splits)
  from assms tr obtain store_id where sid: "subscript_str store ''Id'' = Inr store_id"
    by (auto simp: get_menu_def Let_def split: sum.splits)
  let ?rq = "(mk_request GET catalog_url)
                  \<lparr>rq_url_args := [menu_version st, store_id],
                   rq_cookies := cookies (sess st)\<rparr>"
  from assms tr sid obtain r where r: "net ?rq = Reply r"
    by (cases "net ?rq") (auto simp: get_menu_def Let_def sess_send_def)
  let ?st1 = "st\<lparr>menu := Menu_init, wire := wire st @ [?rq],
                 sess := \<lparr>cookies = set_cookies r @ cookies (sess st)\<rparr>\<rparr>"
  from assms tr sid r obtain catalog items idx where
    c: "body r = Some catalog" "py_iter catalog = Inr items"
       "groups_loop items 0 ?st1 = (None, idx, st')" "m = menu st'"
    by (auto simp: get_menu_def Let_def sess_send_def r_json_def
             split: sum.splits option.splits prod.splits)
  have "wire st' = wire ?st1"
    using groups_loop_frame(1) [of items 0 ?st1] c(3) by simp
  with sid r c show ?thesis by auto
qed


lemma Menu_itemsInCategory_listing:
  "Menu_itemsInCategory m category =
     (case key_of category of None \<Rightarrow> [] | Some c \<Rightarrow> listing m c)"
  by (simp add: Menu_itemsInCategory_def key_of_def listing_def split: sum.splits)

text \<open>
  C2. Take any call of \<^verbatim>\<open>get_menu\<close> that returns a menu. It issued one request, whose
  response body parsed to a catalog. Let \<open>fl\<close> be the products of that catalog in
  flatten order (category group, then subcategory, then product, in response order)
  and \<open>n0\<close> the number of Items that existed before. Then the call created exactly one
  Item per product, in that order: the Item at address \<open>n0 + k\<close> is product \<open>k\<close> with
  \<^verbatim>\<open>idx\<close> set to \<open>k\<close>, so the indexes are \<open>0, 1, 2, ...\<close> in flatten order, each used
  once. The menu lists under each category the addresses of the products whose
  subcategory has that Type, in increasing order, so along every category list the
  indexes increase strictly, and every item in the menu has the index of its flatten
  position.
\<close>

theorem get_menu_indexes_flatten_order:
  assumes "get_menu net store st = (Inr (Some m), st')"
  shows "\<exists>rq r catalog.
           wire st' = wire st @ [rq] \<and> net rq = Reply r \<and> body r = Some catalog \<and>
           m = menu st' \<and>
           (let fl = flatten_catalog catalog; n0 = length (heap st)
            in length (heap st') = n0 + length fl \<and>
               take n0 (heap st') = heap st \<and>
               (\<forall>k < length fl.
                  setitem_str (snd (fl ! k)) ''idx'' (JInt (int k)) = Inr (heap st' ! (n0 + k)) \<and>
                  getattr (heap st' ! (n0 + k)) ''idx'' = Inr (JInt (int k)) \<and>
                  category_of (fst (fl ! k)) \<noteq> None) \<and>
               (\<forall>category.
                  Menu_itemsInCategory m category =
                    map (\<lambda>k. n0 + k)
                      (filter (\<lambda>k. category_of (fst (fl ! k)) = key_of category)
                         [0..<length fl])) \<and>
               (\<forall>category. sorted_wrt (<) (Menu_itemsInCategory m category)) \<and>
               (\<forall>category. \<forall>a \<in> set (Menu_itemsInCategory m category).
                  n0 \<le> a \<and> a < n0 + length fl \<and>
                  getattr (heap st' ! a) ''idx'' = Inr (JInt (int (a - n0)))))"
proof -
  from get_menu_ok [OF assms] obtain store_id r catalog items idx where
    sid: "subscript_str store ''Id'' = Inr store_id" and
    r: "net ((mk_request GET catalog_url)
                  \<lparr>rq_url_args := [menu_version st, store_id],
                   rq_cookies := cookies (sess st)\<rparr>) = Reply r" and
    w: "wire st' = wire st @ [(mk_request GET catalog_url)
                  \<lparr>rq_url_args := [menu_version st, store_id],
                   rq_cookies := cookies (sess st)\<rparr>]" and
    b: "body r = Some catalog" and it: "py_iter catalog = Inr items" and m: "m = menu st'" and
    loop: "groups_loop items 0
             (st\<lparr>menu := Menu_init,
                 wire := wire st @ [(mk_request GET catalog_url)
                  \<lparr>rq_url_args := [menu_version st, store_id],
                   rq_cookies := cookies (sess st)\<rparr>],
                 sess := \<lparr>cookies = set_cookies r @ cookies (sess st)\<rparr>\<rparr>) = (None, idx, st')"
    by blast
  define fl where "fl = flatten_catalog catalog"
  define n0 where "n0 = length (heap st)"
  have fl: "fl = flatten_groups items"
    using it by (simp add: fl_def flatten_catalog_def groups_of_def)
  note g = groups_loop_ok [OF loop]
  have hp: "heap st' = heap st @ index_from 0 (map snd fl)"
    using g fl by simp
  have ls: "\<And>c. listing (menu st') c = addrs_in c n0 fl"
    using g fl by (simp add: listing_def Menu_init_def n0_def)
  have ok: "\<And>k. k < length fl \<Longrightarrow>
              category_of (fst (fl ! k)) \<noteq> None \<and> (\<exists>d. snd (fl ! k) = JObj d)"
    using g fl by (metis nth_mem)
  have len: "length (heap st') = n0 + length fl"
    using hp by (simp add: n0_def)
  have tk: "take n0 (heap st') = heap st"
    using hp by (simp add: n0_def)
  have nth: "\<And>k. k < length fl \<Longrightarrow>
               heap st' ! (n0 + k) = indexed_item (int k) (snd (fl ! k))"
    using hp by (simp add: n0_def nth_index_from)
  have item: "\<And>k. k < length fl \<Longrightarrow>
      setitem_str (snd (fl ! k)) ''idx'' (JInt (int k)) = Inr (heap st' ! (n0 + k)) \<and>
      getattr (heap st' ! (n0 + k)) ''idx'' = Inr (JInt (int k)) \<and>
      category_of (fst (fl ! k)) \<noteq> None"
  proof -
    fix k assume k: "k < length fl"
    from ok [OF k] obtain d where d: "snd (fl ! k) = JObj d" by blast
    show "setitem_str (snd (fl ! k)) ''idx'' (JInt (int k)) = Inr (heap st' ! (n0 + k)) \<and>
          getattr (heap st' ! (n0 + k)) ''idx'' = Inr (JInt (int k)) \<and>
          category_of (fst (fl ! k)) \<noteq> None"
      using ok [OF k] nth [OF k] d by (simp add: indexed_item_def getattr_dict_set)
  qed
  have cl: "\<And>category.
      Menu_itemsInCategory m category =
        map (\<lambda>k. n0 + k)
          (filter (\<lambda>k. category_of (fst (fl ! k)) = key_of category) [0..<length fl])"
  proof -
    fix category
    show "Menu_itemsInCategory m category =
        map (\<lambda>k. n0 + k)
          (filter (\<lambda>k. category_of (fst (fl ! k)) = key_of category) [0..<length fl])"
    proof (cases "key_of category")
      case None
      have "filter (\<lambda>k. category_of (fst (fl ! k)) = None) [0..<length fl] = []"
        using ok by (auto simp: filter_empty_conv)
      with None show ?thesis by (simp add: Menu_itemsInCategory_listing)
    next
      case (Some c)
      then show ?thesis
        by (simp add: Menu_itemsInCategory_listing m ls addrs_in_closed)
    qed
  qed
  have so: "\<And>category. sorted_wrt (<) (Menu_itemsInCategory m category)"
    unfolding cl by (simp add: sorted_wrt_map sorted_wrt_filter)
  have mem: "\<And>category a. a \<in> set (Menu_itemsInCategory m category) \<Longrightarrow>
               n0 \<le> a \<and> a < n0 + length fl \<and>
               getattr (heap st' ! a) ''idx'' = Inr (JInt (int (a - n0)))"
    unfolding cl using item by auto
  show ?thesis
    apply (rule exI [of _ "(mk_request GET catalog_url)
                  \<lparr>rq_url_args := [menu_version st, store_id],
                   rq_cookies := cookies (sess st)\<rparr>"])
    apply (rule exI [of _ r])
    apply (rule exI [of _ catalog])
    unfolding Let_def fl_def [symmetric] n0_def [symmetric]
    using w r b m len tk item cl so mem by blast
qed


lemma get_menu_example:
  "get_menu (serve 200 (Some menu_catalog)) (JObj [(''Id'', JInt 9)]) shop =
     (Inr (Some (menu (snd (get_menu (serve 200 (Some menu_catalog)) (JObj [(''Id'', JInt 9)]) shop)))),
      snd (get_menu (serve 200 (Some menu_catalog)) (JObj [(''Id'', JInt 9)]) shop))"
  by (simp add: get_menu_def shop_simps Let_def dict_get_def sess_send_def serve_def r_json_def
        menu_catalog_def Item_init_def Menu_addItem_def)


lemma flatten_menu_catalog:
  "flatten_catalog menu_catalog =
     [(JObj [(''Type'', JStr ''Pizza''),
             (''Products'', JList [JObj [(''ProductId'', JInt 1)],
                                   JObj [(''ProductId'', JInt 2)]])],
       JObj [(''ProductId'', JInt 1)]),
      (JObj [(''Type'', JStr ''Pizza''),
             (''Products'', JList [JObj [(''ProductId'', JInt 1)],
                                   JObj [(''ProductId'', JInt 2)]])],
       JObj [(''ProductId'', JInt 2)]),
      (JObj [(''Type'', JStr ''Side''),
             (''Products'', JList [JObj [(''ProductId'', JInt 3)]])],
       JObj [(''ProductId'', JInt 3)]),
      (JObj [(''Type'', JStr ''Pizza''),
             (''Products'', JList [JObj [(''ProductId'', JInt 4)]])],
       JObj [(''ProductId'', JInt 4)])]"
  by (simp add: flatten_catalog_def flatten_groups_def flatten_subcategories_def groups_of_def
        children_def menu_catalog_def dict_get_def)

theorem get_menu_indexes_flatten_order_witness:
  "Menu_itemsInCategory
     (menu (snd (get_menu (serve 200 (Some menu_catalog)) (JObj [(''Id'', JInt 9)]) shop)))
     (JStr ''Pizza'') = [1, 2, 4] \<and>
   Menu_itemsInCategory
     (menu (snd (get_menu (serve 200 (Some menu_catalog)) (JObj [(''Id'', JInt 9)]) shop)))
     (JStr ''Side'') = [3] \<and>
   map (\<lambda>a. getattr
               (heap (snd (get_menu (serve 200 (Some menu_catalog)) (JObj [(''Id'', JInt 9)]) shop))
                  ! a) ''idx'')
       [1, 2, 3, 4] =
     [Inr (JInt 0), Inr (JInt 1), Inr (JInt 2), Inr (JInt 3)]"
proof -
  let ?st' = "snd (get_menu (serve 200 (Some menu_catalog)) (JObj [(''Id'', JInt 9)]) shop)"
  from get_menu_indexes_flatten_order [OF get_menu_example] obtain rq r catalog where
    r: "serve 200 (Some menu_catalog) rq = Reply r" and b: "body r = Some catalog" and
    rest: "let fl = flatten_catalog catalog; n0 = length (heap shop)
            in length (heap ?st') = n0 + length fl \<and>
               take n0 (heap ?st') = heap shop \<and>
               (\<forall>k < length fl.
                  setitem_str (snd (fl ! k)) ''idx'' (JInt (int k)) = Inr (heap ?st' ! (n0 + k)) \<and>
                  getattr (heap ?st' ! (n0 + k)) ''idx'' = Inr (JInt (int k)) \<and>
                  category_of (fst (fl ! k)) \<noteq> None) \<and>
               (\<forall>category.
                  Menu_itemsInCategory (menu ?st') category =
                    map (\<lambda>k. n0 + k)
                      (filter (\<lambda>k. category_of (fst (fl ! k)) = key_of category)
                         [0..<length fl])) \<and>
               (\<forall>category. sorted_wrt (<) (Menu_itemsInCategory (menu ?st') category)) \<and>
               (\<forall>category. \<forall>a \<in> set (Menu_itemsInCategory (menu ?st') category).
                  n0 \<le> a \<and> a < n0 + length fl \<and>
                  getattr (heap ?st' ! a) ''idx'' = Inr (JInt (int (a - n0))))"
    by blast
  have c: "catalog = menu_catalog"
    using r b by (auto simp: serve_def)
  note f = rest [unfolded Let_def c flatten_menu_catalog shop_simps]
  have idx: "\<And>k. k < 4 \<Longrightarrow> getattr (heap ?st' ! (1 + k)) ''idx'' = Inr (JInt (int k))"
    using f by simp
  have cat: "\<And>category. Menu_itemsInCategory (menu ?st') category =
               map (\<lambda>k. 1 + k)
                 (filter (\<lambda>k. category_of
                     (fst ([(JObj [(''Type'', JStr ''Pizza''),
             (''Products'', JList [JObj [(''ProductId'', JInt 1)],
                                   JObj [(''ProductId'', JInt 2)]])],
       JObj [(''ProductId'', JInt 1)]),
      (JObj [(''Type'', JStr ''Pizza''),
             (''Products'', JList [JObj [(''ProductId'', JInt 1)],
                                   JObj [(''ProductId'', JInt 2)]])],
       JObj [(''ProductId'', JInt 2)]),
      (JObj [(''Type'', JStr ''Side''),
             (''Products'', JList [JObj [(''ProductId'', JInt 3)]])],
       JObj [(''ProductId'', JInt 3)]),
      (JObj [(''Type'', JStr ''Pizza''),
             (''Products'', JList [JObj [(''ProductId'', JInt 4)]])],
       JObj [(''ProductId'', JInt 4)])] ! k)) = key_of category) [0, 1, 2, 3])"
    using f by (simp add: upt_rec)
  have i: "getattr (heap ?st' ! 1) ''idx'' = Inr (JInt 0)"
          "getattr (heap ?st' ! 2) ''idx'' = Inr (JInt 1)"
          "getattr (heap ?st' ! 3) ''idx'' = Inr (JInt 2)"
          "getattr (heap ?st' ! 4) ''idx'' = Inr (JInt 3)"
    using idx [of 0] idx [of 1] idx [of 2] idx [of 3] by (simp_all add: eval_nat_numeral)
  show ?thesis
    using i by (simp add: cat category_of_def key_of_def dict_get_def)
qed

subsection \<open>Which errors reach the caller\<close>

lemma try_Basket_unparseable: "body r = None \<Longrightarrow> try_Basket r = Inl ValueError"
  by (simp add: try_Basket_def r_json_def)

lemma reset_session_transport:
  "wire (snd (reset_session net st)) = wire st @ [rq] \<Longrightarrow> net rq = TransportFailure \<Longrightarrow>
     fst (reset_session net st) = Inl TransportError"
  by (auto simp: reset_session_def sess_send_def Let_def split: outcome.splits)

lemma search_stores_transport:
  "wire (snd (search_stores net term st)) = wire st @ [rq] \<Longrightarrow> net rq = TransportFailure \<Longrightarrow>
     fst (search_stores net term st) = Inl TransportError"
  by (auto simp: search_stores_def sess_send_def Let_def split: outcome.splits sum.splits)

lemma get_cookie_transport:
  "wire (snd (get_cookie net store postcode st)) = wire st @ [rq] \<Longrightarrow>
   net rq = TransportFailure \<Longrightarrow>
     fst (get_cookie net store postcode st) = Inl TransportError"
  by (auto simp: get_cookie_def sess_send_def Let_def split: outcome.splits sum.splits)

lemma get_store_context_transport:
  "wire (snd (get_store_context net now st)) = wire st @ [rq] \<Longrightarrow>
   net rq = TransportFailure \<Longrightarrow>
     fst (get_store_context net now st) = Inl TransportError"
  by (auto simp: get_store_context_def sess_send_def Let_def split: outcome.splits sum.splits)

lemma get_basket_transport:
  "wire (snd (get_basket net st)) = wire st @ [rq] \<Longrightarrow> net rq = TransportFailure \<Longrightarrow>
     fst (get_basket net st) = Inl TransportError"
  by (auto simp: get_basket_def sess_send_def Let_def split: outcome.splits sum.splits)

lemma groups_loop_wire:
  "groups_loop items idx st = (e, idx', st') \<Longrightarrow> wire st' = wire st"
  using groups_loop_frame(1) [of items idx st] by simp

lemma get_menu_transport:
  assumes "wire (snd (get_menu net store st)) = wire st @ [rq]" "net rq = TransportFailure"
  shows "fst (get_menu net store st) = Inl TransportError"
proof (cases "truthy (menu_version st)")
  case False
  with assms show ?thesis by (simp add: get_menu_falsy)
next
  case True
  show ?thesis
  proof (cases "subscript_str store ''Id''")
    case (Inl e)
    with True assms show ?thesis by (simp add: get_menu_def Let_def)
  next
    case (Inr store_id)
    let ?rq = "(mk_request GET catalog_url)
                 \<lparr>rq_url_args := [menu_version st, store_id], rq_cookies := cookies (sess st)\<rparr>"
    show ?thesis
    proof (cases "net ?rq")
      case TransportFailure
      with True Inr show ?thesis by (simp add: get_menu_def Let_def sess_send_def)
    next
      case (Reply r)
      have "wire (snd (get_menu net store st)) = wire st @ [?rq]"
        using True Inr Reply
        by (auto simp: get_menu_def Let_def sess_send_def dest: groups_loop_wire
                 split: sum.splits prod.splits option.splits)
      with assms Reply show ?thesis by simp
    qed
  qed
qed

lemma add_item_transport:
  assumes "wire (snd (add_item net item size_idx st)) = wire st @ [rq]" "net rq = TransportFailure"
  shows "fst (add_item net item size_idx st) = Inl TransportError"
  using assms add_item_payload_frame [of item size_idx st]
  by (auto simp: add_item_cases Let_def split: prod.splits sum.splits outcome.splits if_splits)

lemma remove_item_transport:
  assumes "wire (snd (remove_item net basket_item_idx st)) = wire st @ [rq]"
          "net rq = TransportFailure"
  shows "fst (remove_item net basket_item_idx st) = Inl TransportError"
  using assms unfolding remove_item_def sess_send_def Let_def print_def
  by (auto split: option.splits sum.splits outcome.splits if_splits)


lemma get_store_context_unparseable:
  "wire (snd (get_store_context net now st)) = wire st @ [rq] \<Longrightarrow> net rq = Reply r \<Longrightarrow>
   body r = None \<Longrightarrow> fst (get_store_context net now st) = Inr False"
  by (auto simp: get_store_context_def sess_send_def Let_def r_json_def
           split: outcome.splits sum.splits)

lemma get_basket_unparseable:
  "wire (snd (get_basket net st)) = wire st @ [rq] \<Longrightarrow> net rq = Reply r \<Longrightarrow>
   try_Basket r = Inl e \<Longrightarrow>
     fst (get_basket net st) = Inr False \<and> basket (snd (get_basket net st)) = basket st"
  by (auto simp: get_basket_def sess_send_def Let_def split: outcome.splits sum.splits)

lemma add_item_unparseable:
  assumes "wire (snd (add_item net item size_idx st)) = wire st @ [rq]" "net rq = Reply r"
          "try_Basket r = Inl e"
  shows "fst (add_item net item size_idx st) = Inr False"
  using assms add_item_payload_frame [of item size_idx st]
  by (auto simp: add_item_cases Let_def split: prod.splits sum.splits outcome.splits if_splits)

lemma remove_item_unparseable:
  assumes "wire (snd (remove_item net basket_item_idx st)) = wire st @ [rq]" "net rq = Reply r"
          "try_Basket r = Inl e"
  shows "fst (remove_item net basket_item_idx st) = Inr () \<and>
         stdout (snd (remove_item net basket_item_idx st)) =
           stdout st @
           [(if status_code r \<noteq> 200 then ''[Error] Connection failed to remove item.''
             else ''[Error] Error removing item. Invalid response.'', [])]"
  using assms unfolding remove_item_def sess_send_def Let_def print_def
  by (auto split: option.splits sum.splits outcome.splits if_splits)

text \<open>
  C7, as amended. In each statement the request is the one the call issued. When its
  response has a body that does not parse, \<^verbatim>\<open>get_store_context\<close>, \<^verbatim>\<open>get_basket\<close> and
  \<^verbatim>\<open>add_item\<close> return False and \<^verbatim>\<open>remove_item\<close> returns no value and prints an error
  line: the error is caught inside the operation. The last three do the same when the
  body parses to something no Basket can be built from. When the request gets no
  answer, no operation of the client catches the transport error: it reaches the
  caller from each of the eight operations that issue a request.
\<close>

theorem parse_errors_caught_transport_errors_raised:
  "(\<forall>rq r. wire (snd (get_store_context net now st)) = wire st @ [rq] \<and> net rq = Reply r \<and>
            body r = None \<longrightarrow>
       fst (get_store_context net now st) = Inr False) \<and>
   (\<forall>rq r e. wire (snd (get_basket net st)) = wire st @ [rq] \<and> net rq = Reply r \<and>
            (body r = None \<or> try_Basket r = Inl e) \<longrightarrow>
       fst (get_basket net st) = Inr False) \<and>
   (\<forall>rq r e. wire (snd (add_item net item size_idx st)) = wire st @ [rq] \<and> net rq = Reply r \<and>
            (body r = None \<or> try_Basket r = Inl e) \<longrightarrow>
       fst (add_item net item size_idx st) = Inr False) \<and>
   (\<forall>rq r e. wire (snd (remove_item net basket_item_idx st)) = wire st @ [rq] \<and>
            net rq = Reply r \<and> (body r = None \<or> try_Basket r = Inl e) \<longrightarrow>
       fst (remove_item net basket_item_idx st) = Inr () \<and>
       stdout (snd (remove_item net basket_item_idx st)) =
         stdout st @
         [(if status_code r \<noteq> 200 then ''[Error] Connection failed to remove item.''
           else ''[Error] Error removing item. Invalid response.'', [])]) \<and>
   (\<forall>rq. wire (snd (reset_session net st)) = wire st @ [rq] \<and> net rq = TransportFailure \<longrightarrow>
       fst (reset_session net st) = Inl TransportError) \<and>
   (\<forall>rq. wire (snd (search_stores net search_term st)) = wire st @ [rq] \<and>
         net rq = TransportFailure \<longrightarrow>
       fst (search_stores net search_term st) = Inl TransportError) \<and>
   (\<forall>rq. wire (snd (get_cookie net store postcode st)) = wire st @ [rq] \<and>
         net rq = TransportFailure \<longrightarrow>
       fst (get_cookie net store postcode st) = Inl TransportError) \<and>
   (\<forall>rq. wire (snd (get_store_context net now st)) = wire st @ [rq] \<and>
         net rq = TransportFailure \<longrightarrow>
       fst (get_store_context net now st) = Inl TransportError) \<and>
   (\<forall>rq. wire (snd (get_basket net st)) = wire st @ [rq] \<and> net rq = TransportFailure \<longrightarrow>
       fst (get_basket net st) = Inl TransportError) \<and>
   (\<forall>rq. wire (snd (get_menu net store st)) = wire st @ [rq] \<and> net rq = TransportFailure \<longrightarrow>
       fst (get_menu net store st) = Inl TransportError) \<and>
   (\<forall>rq. wire (snd (add_item net item size_idx st)) = wire st @ [rq] \<and>
         net rq = TransportFailure \<longrightarrow>
       fst (add_item net item size_idx st) = Inl TransportError) \<and>
   (\<forall>rq. wire (snd (remove_item net basket_item_idx st)) = wire st @ [rq] \<and>
         net rq = TransportFailure \<longrightarrow>
       fst (remove_item net basket_item_idx st) = Inl TransportError)"
proof (intro conjI allI impI)
  fix rq r
  assume "wire (snd (get_store_context net now st)) = wire st @ [rq] \<and> net rq = Reply r \<and>
          body r = None"
  then show "fst (get_store_context net now st) = Inr False"
    using get_store_context_unparseable by blast
next
  fix rq r e
  assume "wire (snd (get_basket net st)) = wire st @ [rq] \<and> net rq = Reply r \<and>
          (body r = None \<or> try_Basket r = Inl e)"
  then show "fst (get_basket net st) = Inr False"
    using get_basket_unparseable try_Basket_unparseable by blast
next
  fix rq r e
  assume "wire (snd (add_item net item size_idx st)) = wire st @ [rq] \<and> net rq = Reply r \<and>
          (body r = None \<or> try_Basket r = Inl e)"
  then show "fst (add_item net item size_idx st) = Inr False"
    using add_item_unparseable try_Basket_unparseable by blast
next
  fix rq r e
  assume a: "wire (snd (remove_item net basket_item_idx st)) = wire st @ [rq] \<and>
          net rq = Reply r \<and> (body r = None \<or> try_Basket r = Inl e)"
  then obtain e' where "try_Basket r = Inl e'"
    using try_Basket_unparseable by blast
  with a show "fst (remove_item net basket_item_idx st) = Inr ()"
    and "stdout (snd (remove_item net basket_item_idx st)) =
         stdout st @
         [(if status_code r \<noteq> 200 then ''[Error] Connection failed to remove item.''
           else ''[Error] Error removing item. Invalid response.'', [])]"
    using remove_item_unparseable by blast+
qed (blast intro: reset_session_transport search_stores_transport get_cookie_transport
       get_store_context_transport get_basket_transport get_menu_transport
       add_item_transport remove_item_transport)+


lemma shop_add_item_payload:
  "add_item_payload 0 0 shop =
     (Inr (base_url @ ''/Basket/AddPizza/'',
           JObj [(''stepId'', JInt 0),
                 (''quantity'', JInt 1),
                 (''sizeId'', JInt 0),
                 (''productId'', JInt 12),
                 (''ingredients'', JList [JInt 5, JInt 42, JInt 36]),
                 (''productIdHalfTwo'', JInt 0),
                 (''ingredientsHalfTwo'', JList []),
                 (''recipeReferrer'', JInt 0)]),
      shop\<lparr>heap :=
        [[(''Type'', JStr ''Pizza''), (''ProductId'', JInt 12), (''Title'', JStr ''Margherita''),
          (''ProductSkus'',
           JList [JObj [(''ProductSkuId'', JInt 101),
                        (''Ingredients'', JList [JInt 5, JInt 42, JInt 36])],
                  JObj [(''ProductSkuId'', JInt 102),
                        (''Ingredients'', JList [JInt 5, JInt 7])]])]]\<rparr>)"
  by (simp add: add_item_payload_def shop_simps pizza_def getattr_def dict_get_def
        list_index_def Let_def)

lemma shop_wire:
  "wire (snd (get_store_context net 0 shop)) =
     [(mk_request GET (base_url @ ''ProductCatalog/GetStoreContext''))
        \<lparr>rq_params := [(''_'', JInt 0)], rq_headers := json_headers,
         rq_cookies := [(''sid'', ''abc'')]\<rparr>]"
  "wire (snd (get_basket net shop)) =
     [(mk_request GET (base_url @ ''/Basket/GetBasket?''))\<lparr>rq_cookies := [(''sid'', ''abc'')]\<rparr>]"
  "wire (snd (add_item net 0 0 shop)) =
     [(mk_request POST (base_url @ ''/Basket/AddPizza/''))
        \<lparr>rq_data := Some (JObj [(''stepId'', JInt 0),
                               (''quantity'', JInt 1),
                               (''sizeId'', JInt 0),
                               (''productId'', JInt 12),
                               (''ingredients'', JList [JInt 5, JInt 42, JInt 36]),
                               (''productIdHalfTwo'', JInt 0),
                               (''ingredientsHalfTwo'', JList []),
                               (''recipeReferrer'', JInt 0)]),
         rq_headers := json_headers, rq_cookies := [(''sid'', ''abc'')]\<rparr>]"
  "wire (snd (remove_item net 0 shop)) =
     [(mk_request GET (base_url @ ''/Basket/RemoveBasketItem''))
        \<lparr>rq_params := [(''basketItemId'', JInt 31), (''wizardItemDelete'', JBool False)],
         rq_cookies := [(''sid'', ''abc'')]\<rparr>]"
  "wire (snd (reset_session net shop)) =
     [(mk_request GET (base_url @ ''/Home/SessionExpire''))\<lparr>rq_cookies := [(''sid'', ''abc'')]\<rparr>]"
  "wire (snd (search_stores net ''SW1A 1AA'' shop)) =
     [(mk_request GET (base_url @ ''storelocatormap/storenamesearch''))
        \<lparr>rq_params := [(''search'', JStr ''SW1A 1AA'')], rq_cookies := [(''sid'', ''abc'')]\<rparr>]"
  "wire (snd (get_cookie net (JObj [(''Id'', JInt 9)]) ''SW1A 1AA'' shop)) =
     [(mk_request GET (base_url @ ''Journey/Initialize''))
        \<lparr>rq_params := [(''fulfilmentmethod'', JStr ''1''), (''storeId'', JInt 9),
                       (''postcode'', JStr ''SW1A 1AA'')],
         rq_cookies := [(''sid'', ''abc'')]\<rparr>]"
  "wire (snd (get_menu down (JObj [(''Id'', JInt 9)]) shop)) =
     [(mk_request GET catalog_url)
        \<lparr>rq_url_args := [JStr ''635603832000000000'', JInt 9],
         rq_cookies := [(''sid'', ''abc'')]\<rparr>]"
proof -
  show "wire (snd (get_store_context net 0 shop)) =
     [(mk_request GET (base_url @ ''ProductCatalog/GetStoreContext''))
        \<lparr>rq_params := [(''_'', JInt 0)], rq_headers := json_headers,
         rq_cookies := [(''sid'', ''abc'')]\<rparr>]"
    by (simp add: get_store_context_def sess_send_def Let_def shop_simps
          split: outcome.splits sum.splits)
  show "wire (snd (get_basket net shop)) =
     [(mk_request GET (base_url @ ''/Basket/GetBasket?''))\<lparr>rq_cookies := [(''sid'', ''abc'')]\<rparr>]"
    by (simp add: get_basket_def sess_send_def Let_def shop_simps
          split: outcome.splits sum.splits)
  show "wire (snd (add_item net 0 0 shop)) =
     [(mk_request POST (base_url @ ''/Basket/AddPizza/''))
        \<lparr>rq_data := Some (JObj [(''stepId'', JInt 0),
                               (''quantity'', JInt 1),
                               (''sizeId'', JInt 0),
                               (''productId'', JInt 12),
                               (''ingredients'', JList [JInt 5, JInt 42, JInt 36]),
                               (''productIdHalfTwo'', JInt 0),
                               (''ingredientsHalfTwo'', JList []),
                               (''recipeReferrer'', JInt 0)]),
         rq_headers := json_headers, rq_cookies := [(''sid'', ''abc'')]\<rparr>]"
    using add_item_sent [OF shop_add_item_payload, of net] by (simp add: shop_simps)
  show "wire (snd (remove_item net 0 shop)) =
     [(mk_request GET (base_url @ ''/Basket/RemoveBasketItem''))
        \<lparr>rq_params := [(''basketItemId'', JInt 31), (''wizardItemDelete'', JBool False)],
         rq_cookies := [(''sid'', ''abc'')]\<rparr>]"
    by (simp add: remove_item_def sess_send_def Let_def shop_simps old_basket_def getattr_def
          dict_get_def list_index_def Item_init_def print_def
          split: outcome.splits sum.splits)
  show "wire (snd (reset_session net shop)) =
     [(mk_request GET (base_url @ ''/Home/SessionExpire''))\<lparr>rq_cookies := [(''sid'', ''abc'')]\<rparr>]"
    by (simp add: reset_session_def sess_send_def Let_def shop_simps split: outcome.splits)
  show "wire (snd (search_stores net ''SW1A 1AA'' shop)) =
     [(mk_request GET (base_url @ ''storelocatormap/storenamesearch''))
        \<lparr>rq_params := [(''search'', JStr ''SW1A 1AA'')], rq_cookies := [(''sid'', ''abc'')]\<rparr>]"
    by (simp add: search_stores_def sess_send_def Let_def shop_simps
          split: outcome.splits sum.splits)
  show "wire (snd (get_cookie net (JObj [(''Id'', JInt 9)]) ''SW1A 1AA'' shop)) =
     [(mk_request GET (base_url @ ''Journey/Initialize''))
        \<lparr>rq_params := [(''fulfilmentmethod'', JStr ''1''), (''storeId'', JInt 9),
                       (''postcode'', JStr ''SW1A 1AA'')],
         rq_cookies := [(''sid'', ''abc'')]\<rparr>]"
    by (simp add: get_cookie_def sess_send_def Let_def shop_simps dict_get_def
          split: outcome.splits sum.splits)
  show "wire (snd (get_menu down (JObj [(''Id'', JInt 9)]) shop)) =
     [(mk_request GET catalog_url)
        \<lparr>rq_url_args := [JStr ''635603832000000000'', JInt 9],
         rq_cookies := [(''sid'', ''abc'')]\<rparr>]"
    by (simp add: get_menu_def sess_send_def Let_def shop_simps dict_get_def down_def)
qed

theorem parse_errors_caught_transport_errors_raised_witness:
  "fst (get_store_context (serve 200 None) 0 shop) = Inr False \<and>
   fst (get_basket (serve 200 None) shop) = Inr False \<and>
   fst (add_item (serve 200 None) 0 0 shop) = Inr False \<and>
   fst (remove_item (serve 200 None) 0 shop) = Inr () \<and>
   stdout (snd (remove_item (serve 200 None) 0 shop)) =
     [(''[Error] Error removing item. Invalid response.'', [])] \<and>
   fst (reset_session down shop) = Inl TransportError \<and>
   fst (search_stores down ''SW1A 1AA'' shop) = Inl TransportError \<and>
   fst (get_cookie down (JObj [(''Id'', JInt 9)]) ''SW1A 1AA'' shop) = Inl TransportError \<and>
   fst (get_store_context down 0 shop) = Inl TransportError \<and>
   fst (get_basket down shop) = Inl TransportError \<and>
   fst (get_menu down (JObj [(''Id'', JInt 9)]) shop) = Inl TransportError \<and>
   fst (add_item down 0 0 shop) = Inl TransportError \<and>
   fst (remove_item down 0 shop) = Inl TransportError"
  using parse_errors_caught_transport_errors_raised
          [where net = "serve 200 None" and st = shop and now = 0 and item = 0 and
             size_idx = 0 and basket_item_idx = 0]
        parse_errors_caught_transport_errors_raised
          [where net = down and st = shop and now = 0 and item = 0 and size_idx = 0 and
             basket_item_idx = 0 and store = "JObj [(''Id'', JInt 9)]" and
             postcode = "''SW1A 1AA''" and search_term = "''SW1A 1AA''"]
  by (simp add: shop_wire shop_wire(8) [unfolded down_def] shop_simps serve_def down_def)


text \<open>
  C7 as stated fails: a context response without \<^verbatim>\<open>sessionContext\<close> raises KeyError
  out of \<^verbatim>\<open>get_store_context\<close>, a store search whose body does not parse raises
  ValueError out of \<^verbatim>\<open>search_stores\<close>, and a request without an answer raises the
  transport error out of \<^verbatim>\<open>reset_session\<close>.
\<close>

theorem raw_exceptions_propagate_counterexample:
  "fst (get_store_context (serve 200 (Some (JObj []))) 0 shop) = Inl KeyError \<and>
   fst (search_stores (serve 200 None) ''SW1A 1AA'' shop) = Inl ValueError \<and>
   fst (reset_session down shop) = Inl TransportError"
  by (simp add: get_store_context_def search_stores_def reset_session_def sess_send_def Let_def
        serve_def down_def r_json_def dict_get_def)


subsection \<open>get_menu: the previous menu\<close>

lemma listing_Menu_init [simp]: "listing Menu_init c = []"
  by (simp add: listing_def Menu_init_def)

lemma Menu_addItem_fresh:
  assumes "Menu_addItem m category a = Inr m'" "n0 \<le> a"
          "\<forall>c. \<forall>x \<in> set (listing m c). n0 \<le> x"
  shows "\<forall>c. \<forall>x \<in> set (listing m' c). n0 \<le> x"
  using Menu_addItem_listing [OF assms(1)] assms(2,3) by auto

lemma products_loop_fresh:
  "products_loop i ps idx st = (e, idx', st') \<Longrightarrow> n0 \<le> length (heap st) \<Longrightarrow>
   \<forall>c. \<forall>x \<in> set (listing (menu st) c). n0 \<le> x \<Longrightarrow>
     n0 \<le> length (heap st') \<and> (\<forall>c. \<forall>x \<in> set (listing (menu st') c). n0 \<le> x)"
proof (induction ps arbitrary: idx st)
  case Nil
  then show ?case by simp
next
  case (Cons p ps)
  show ?case
  proof (cases "setitem_str p ''idx'' (JInt idx)")
    case (Inl x)
    with Cons.prems show ?thesis by simp
  next
    case p1: (Inr p1)
    show ?thesis
    proof (cases "subscript_str i ''Type''")
      case (Inl x)
      with Cons.prems p1 show ?thesis by simp
    next
      case cat: (Inr category)
      show ?thesis
      proof (cases "Item_init (JObj p1)")
        case (Inl x)
        with Cons.prems p1 cat show ?thesis by simp
      next
        case obj: (Inr obj)
        show ?thesis
        proof (cases "Menu_addItem (menu st) category (length (heap st))")
          case (Inl x)
          with Cons.prems p1 cat obj show ?thesis by (auto simp: Let_def)
        next
          case (Inr m)
          from Menu_addItem_fresh [OF Inr Cons.prems(2) Cons.prems(3)]
          have f: "\<forall>c. \<forall>x \<in> set (listing m c). n0 \<le> x" .
          from Cons.prems(1) p1 cat obj Inr
          have rest: "products_loop i ps (idx + 1) (st\<lparr>heap := heap st @ [obj], menu := m\<rparr>) =
                        (e, idx', st')"
            by (simp add: Let_def)
          show ?thesis
            using Cons.IH [OF rest] Cons.prems(2) f by simp
        qed
      qed
    qed
  qed
qed

lemma subcategories_loop_fresh:
  "subcategories_loop subs idx st = (e, idx', st') \<Longrightarrow> n0 \<le> length (heap st) \<Longrightarrow>
   \<forall>c. \<forall>x \<in> set (listing (menu st) c). n0 \<le> x \<Longrightarrow>
     n0 \<le> length (heap st') \<and> (\<forall>c. \<forall>x \<in> set (listing (menu st') c). n0 \<le> x)"
proof (induction subs arbitrary: idx st)
  case Nil
  then show ?case by simp
next
  case (Cons i subs)
  show ?case
  proof (cases "subscript_str i ''Products''")
    case (Inl x)
    with Cons.prems show ?thesis by simp
  next
    case pr: (Inr products)
    show ?thesis
    proof (cases "py_iter products")
      case (Inl x)
      with Cons.prems pr show ?thesis by simp
    next
      case it: (Inr ps)
      obtain e1 idx1 st1 where inner: "products_loop i ps idx st = (e1, idx1, st1)"
        by (cases "products_loop i ps idx st") auto
      note a = products_loop_fresh [OF inner Cons.prems(2) Cons.prems(3)]
      show ?thesis
      proof (cases e1)
        case None
        with Cons.prems(1) pr it inner
        have "subcategories_loop subs idx1 st1 = (e, idx', st')" by simp
        from Cons.IH [OF this] a show ?thesis by blast
      next
        case (Some x)
        with Cons.prems(1) pr it inner have "st' = st1" by simp
        with a show ?thesis by simp
      qed
    qed
  qed
qed

lemma groups_loop_fresh:
  "groups_loop items idx st = (e, idx', st') \<Longrightarrow> n0 \<le> length (heap st) \<Longrightarrow>
   \<forall>c. \<forall>x \<in> set (listing (menu st) c). n0 \<le> x \<Longrightarrow>
     n0 \<le> length (heap st') \<and> (\<forall>c. \<forall>x \<in> set (listing (menu st') c). n0 \<le> x)"
proof (induction items arbitrary: idx st)
  case Nil
  then show ?case by simp
next
  case (Cons item items)
  show ?case
  proof (cases "subscript_str item ''Subcategories''")
    case (Inl x)
    with Cons.prems show ?thesis by simp
  next
    case pr: (Inr subcategories)
    show ?thesis
    proof (cases "py_iter subcategories")
      case (Inl x)
      with Cons.prems pr show ?thesis by simp
    next
      case it: (Inr subs)
      obtain e1 idx1 st1 where inner: "subcategories_loop subs idx st = (e1, idx1, st1)"
        by (cases "subcategories_loop subs idx st") auto
      note a = subcategories_loop_fresh [OF inner Cons.prems(2) Cons.prems(3)]
      show ?thesis
      proof (cases e1)
        case None
        with Cons.prems(1) pr it inner
        have "groups_loop items idx1 st1 = (e, idx', st')" by simp
        from Cons.IH [OF this] a show ?thesis by blast
      next
        case (Some x)
        with Cons.prems(1) pr it inner have "st' = st1" by simp
        with a show ?thesis by simp
      qed
    qed
  qed
qed

lemma get_menu_fresh:
  "\<forall>c. \<forall>x \<in> set (listing (menu (snd (get_menu net store st))) c). length (heap st) \<le> x"
proof (cases "truthy (menu_version st)")
  case False
  then show ?thesis by (simp add: get_menu_falsy)
next
  case True
  show ?thesis
  proof (cases "subscript_str store ''Id''")
    case (Inl e)
    with True show ?thesis by (simp add: get_menu_def Let_def)
  next
    case (Inr store_id)
    let ?rq = "(mk_request GET catalog_url)
                 \<lparr>rq_url_args := [menu_version st, store_id], rq_cookies := cookies (sess st)\<rparr>"
    show ?thesis
    proof (cases "net ?rq")
      case TransportFailure
      with True Inr show ?thesis by (simp add: get_menu_def Let_def sess_send_def)
    next
      case (Reply r)
      let ?st1 = "st\<lparr>menu := Menu_init, wire := wire st @ [?rq],
                     sess := \<lparr>cookies = set_cookies r @ cookies (sess st)\<rparr>\<rparr>"
      have s1: "length (heap st) \<le> length (heap ?st1)"
               "\<forall>c. \<forall>x \<in> set (listing (menu ?st1) c). length (heap st) \<le> x"
        by simp_all
      show ?thesis
      proof (cases "r_json r")
        case (Inl e)
        with True Inr Reply show ?thesis by (simp add: get_menu_def Let_def sess_send_def)
      next
        case cat: (Inr catalog)
        show ?thesis
        proof (cases "py_iter catalog")
          case (Inl e)
          with True Inr Reply cat show ?thesis by (simp add: get_menu_def Let_def sess_send_def)
        next
          case it: (Inr items)
          obtain e idx st2 where loop: "groups_loop items 0 ?st1 = (e, idx, st2)"
            by (cases "groups_loop items 0 ?st1") auto
          have "snd (get_menu net store st) = st2"
            using True Inr Reply cat it loop
            by (simp add: get_menu_def Let_def sess_send_def split: option.splits)
          with groups_loop_fresh [OF loop s1] show ?thesis by simp
        qed
      qed
    qed
  qed
qed

text \<open>
  C10. \<^verbatim>\<open>get_menu\<close> starts by replacing the cached menu with an empty one: the call
  behaves the same whatever menu was cached before; on the path without a menu
  version it returns None, issues no request and leaves the empty menu; and in every
  outcome, exceptions included, the menu afterwards holds only Items created by this
  call, none of those that existed before.
\<close>

theorem get_menu_discards_previous_menu:
  "get_menu net store (st\<lparr>menu := m0\<rparr>) = get_menu net store st \<and>
   (\<not> truthy (menu_version st) \<longrightarrow>
      fst (get_menu net store st) = Inr None \<and>
      menu (snd (get_menu net store st)) = Menu_init \<and>
      wire (snd (get_menu net store st)) = wire st) \<and>
   (\<forall>category. \<forall>a \<in> set (Menu_itemsInCategory (menu (snd (get_menu net store st))) category).
      length (heap st) \<le> a)"
proof (intro conjI)
  show "get_menu net store (st\<lparr>menu := m0\<rparr>) = get_menu net store st"
    by (simp add: get_menu_def)
  show "\<not> truthy (menu_version st) \<longrightarrow>
      fst (get_menu net store st) = Inr None \<and>
      menu (snd (get_menu net store st)) = Menu_init \<and>
      wire (snd (get_menu net store st)) = wire st"
    by (simp add: get_menu_falsy)
  show "\<forall>category. \<forall>a \<in> set (Menu_itemsInCategory (menu (snd (get_menu net store st))) category).
      length (heap st) \<le> a"
    using get_menu_fresh [of net store st]
    by (auto simp: Menu_itemsInCategory_listing split: option.splits)
qed

theorem get_menu_discards_previous_menu_witness:
  "Menu_itemsInCategory (menu stale) (JStr ''Pizza'') = [0] \<and>
   \<not> truthy (menu_version stale) \<and>
   fst (get_menu down (JObj [(''Id'', JInt 9)]) stale) = Inr None \<and>
   menu (snd (get_menu down (JObj [(''Id'', JInt 9)]) stale)) = Menu_init \<and>
   Menu_itemsInCategory (menu (snd (get_menu down (JObj [(''Id'', JInt 9)]) stale)))
     (JStr ''Pizza'') = []"
proof -
  have h: "\<not> truthy (menu_version stale)"
    by (simp add: stale_def Dominos_fields_def)
  have m: "Menu_itemsInCategory (menu stale) (JStr ''Pizza'') = [0]"
    by (simp add: stale_def Dominos_fields_def Menu_itemsInCategory_def Menu_init_def)
  from get_menu_discards_previous_menu
         [where net = down and store = "JObj [(''Id'', JInt 9)]" and st = stale] h
  have "fst (get_menu down (JObj [(''Id'', JInt 9)]) stale) = Inr None \<and>
        menu (snd (get_menu down (JObj [(''Id'', JInt 9)]) stale)) = Menu_init"
    by blast
  then show ?thesis
    using h m by (simp add: Menu_itemsInCategory_def Menu_init_def)
qed

end
